theory Spec2Isabelle
  imports Complex_Main "HOL-Library.List_Lexorder" "HOL-Library.Char_ord"
begin

section \<open>Embedding refresh service: model of main.py\<close>

text \<open>
  The program talks to three outside parties: the process environment (three
  configuration variables read once at import time), an HTTP embedding service and a
  PostgreSQL server. Each is a parameter of the model. Every call the program makes to
  the outside and every call to the logger is recorded, in program order, in a trace of
  events; every exception is a value.
\<close>

subsection \<open>Python values\<close>

text \<open>
  Exceptions. All of them are subclasses of Python's \<open>Exception\<close>; \<open>Psycopg2Error\<close>
  stands for \<open>psycopg2.Error\<close> and its subclasses. \<open>AttributeError ty a\<close> is the error of
  reading attribute \<open>a\<close> of a value of type \<open>ty\<close>.
\<close>

datatype exn =
    ValueError string
  | ConnectionError string
  | RuntimeError string
  | AttributeError string string
  | Psycopg2Error string
  | OtherError string

fun exn_str :: "exn \<Rightarrow> string" where
  "exn_str (ValueError m) = m"
| "exn_str (ConnectionError m) = m"
| "exn_str (RuntimeError m) = m"
| "exn_str (AttributeError ty a) =
     [CHR 0x27] @ ty @ [CHR 0x27] @ '' object has no attribute '' @ [CHR 0x27] @ a @ [CHR 0x27]"
| "exn_str (Psycopg2Error m) = m"
| "exn_str (OtherError m) = m"

fun is_psycopg2_error :: "exn \<Rightarrow> bool" where
  "is_psycopg2_error (Psycopg2Error m) = True"
| "is_psycopg2_error e = False"

text \<open>
  A decoded JSON body, as \<open>response.json()\<close> returns it: an object is a dict, here an
  association list read with \<open>map_of\<close>. A float is kept as the rational its literal
  denotes; the program never computes with it.
\<close>

datatype json =
    JNull
  | JBool bool
  | JInt int
  | JFloat rat
  | JStr string
  | JArr "json list"
  | JObj "(string \<times> json) list"

text \<open>Python truthiness, the test behind \<open>not x\<close>.\<close>

fun truthy :: "json \<Rightarrow> bool" where
  "truthy JNull = False"
| "truthy (JBool b) = b"
| "truthy (JInt i) = (i \<noteq> 0)"
| "truthy (JFloat q) = (q \<noteq> 0)"
| "truthy (JStr s) = (s \<noteq> [])"
| "truthy (JArr xs) = (xs \<noteq> [])"
| "truthy (JObj kvs) = (kvs \<noteq> [])"

fun type_name :: "json \<Rightarrow> string" where
  "type_name JNull = ''NoneType''"
| "type_name (JBool b) = ''bool''"
| "type_name (JInt i) = ''int''"
| "type_name (JFloat q) = ''float''"
| "type_name (JStr s) = ''str''"
| "type_name (JArr xs) = ''list''"
| "type_name (JObj kvs) = ''dict''"

text \<open>\<open>os.getenv\<close> gives \<open>None\<close> or a string; both \<open>None\<close> and the empty string are falsy.\<close>

fun env_truthy :: "string option \<Rightarrow> bool" where
  "env_truthy None = False"
| "env_truthy (Some s) = (s \<noteq> [])"

text \<open>\<open>str.strip()\<close>: whitespace is removed at both ends (code points below 256).\<close>

definition is_space :: "char \<Rightarrow> bool" where
  "is_space c = ((of_char c :: nat) \<in> {9, 10, 11, 12, 13, 28, 29, 30, 31, 32, 133, 160})"

definition strip :: "string \<Rightarrow> string" where
  "strip s = rev (dropWhile is_space (rev (dropWhile is_space s)))"

subsection \<open>Configuration, requests, events\<close>

record config =
  VECTOR_SERVICE_URL :: "string option"
  VECTOR_MODEL :: "string option"
  VECTOR_USER :: "string option"
  VECTOR_HEADERS :: "(string \<times> string option) list"

record payload =
  p_input :: "string list"
  p_model :: string
  p_user :: string

record request =
  r_url :: string
  r_headers :: "(string \<times> string option) list"
  r_json :: payload
  r_timeout :: nat

text \<open>
  What the three lines \<open>requests.post\<close>, \<open>raise_for_status\<close>, \<open>response.json\<close> can do:
  raise a \<open>RequestException\<close> (with its message and, when the exception carries a
  response, that response's text), raise something else, or give a decoded body.
\<close>

datatype http_outcome =
    RequestFailed string "string option"
  | OtherFailure exn
  | JsonBody json

datatype level = DEBUG | INFO | ERROR

text \<open>
  One constructor for each logger call of the source, with the values its f-string
  interpolates (the literal text of the source is Chinese and not repeated here).
\<close>

datatype logmsg =
    MsgConfigIncomplete
  | MsgCallService string
  | MsgBadFormat json
  | MsgMissingEmbedding json
  | MsgCallFailed string
  | MsgGenError string
  | MsgConnecting string int string
  | MsgNoMatch string
  | MsgAllTables string string
  | MsgNoTables string
  | MsgMatched string
  | MsgFound nat
  | MsgNothing
  | MsgProgress nat nat
  | MsgRowFailed nat int string
  | MsgDone nat nat
  | MsgDbFailed string
  | MsgJobError string
  | MsgClosed

text \<open>The SQL statements the job sends, with their parameters.\<close>

datatype stmt =
    SelectMatch string
  | SelectAllTables
  | SelectRows string string
  | Update string string "json list" int

datatype event =
    Log level logmsg
  | HttpPost request
  | DbConnect string int string string string
  | DbRegisterVector
  | DbCursor
  | DbExec stmt
  | DbFetchOne
  | DbFetchAll
  | DbCommit
  | DbRollback
  | DbClose

subsection \<open>The embedding client: \<open>call_vector_service\<close>\<close>

text \<open>
  The texts of the exceptions raised at lines 51, 72 and 77, and the prefixes built at
  lines 82, 84 and 89 (English stand-ins for the Chinese literals).
\<close>

definition msg_config_missing :: string where
  "msg_config_missing = ''vector service internal configuration missing''"

definition msg_no_data :: string where
  "msg_no_data = ''vector service returned no valid embedding data''"

definition msg_illegal_format :: string where
  "msg_illegal_format = ''vector service returned an illegal format''"

definition pre_call_failed :: string where
  "pre_call_failed = ''vector service call failed: ''"

definition pre_response_text :: string where
  "pre_response_text = '', response content: ''"

definition pre_gen_failed :: string where
  "pre_gen_failed = ''vector generation failed: ''"

text \<open>\<open>all([VECTOR_SERVICE_URL, VECTOR_MODEL, VECTOR_USER])\<close>.\<close>

definition all_configured :: "config \<Rightarrow> bool" where
  "all_configured cfg =
     (env_truthy (VECTOR_SERVICE_URL cfg) \<and> env_truthy (VECTOR_MODEL cfg) \<and> env_truthy (VECTOR_USER cfg))"

text \<open>
  Lines 70 to 79: the shape checks on the decoded body. \<open>.get\<close> exists on a dict only;
  on any other value the attribute lookup raises. \<open>take_embedding\<close> is lines 74 to 79,
  entered with \<open>data\<close> a non-empty list: the test
  \<open>not embedding or not isinstance(embedding, list)\<close> passes exactly a non-empty list.
\<close>

fun is_list :: "json \<Rightarrow> bool" where
  "is_list (JArr xs) = True"
| "is_list v = False"

fun dict_get :: "json \<Rightarrow> string \<Rightarrow> exn + json" where
  "dict_get (JObj kvs) k = Inr (case map_of kvs k of None \<Rightarrow> JNull | Some v \<Rightarrow> v)"
| "dict_get v k = Inl (AttributeError (type_name v) ''get'')"

fun take_embedding :: "json \<Rightarrow> json \<Rightarrow> event list \<times> (exn + json list)" where
  "take_embedding result (JArr (first # rest)) =
     (case dict_get first ''embedding'' of
        Inl e \<Rightarrow> ([], Inl e)
      | Inr (JArr (x # xs)) \<Rightarrow> ([], Inr (x # xs))
      | Inr v \<Rightarrow> ([Log ERROR (MsgMissingEmbedding result)], Inl (ValueError msg_illegal_format)))"
| "take_embedding result d = ([Log ERROR (MsgBadFormat result)], Inl (ValueError msg_no_data))"

fun json_len :: "json \<Rightarrow> nat" where
  "json_len (JArr xs) = length xs"
| "json_len v = 0"

definition read_response :: "json \<Rightarrow> event list \<times> (exn + json list)" where
  "read_response result =
     (case dict_get result ''data'' of
        Inl e \<Rightarrow> ([], Inl e)
      | Inr d \<Rightarrow>
          if \<not> truthy d \<or> \<not> is_list d \<or> json_len d = 0 then
            ([Log ERROR (MsgBadFormat result)], Inl (ValueError msg_no_data))
          else take_embedding result d)"

text \<open>The handler of line 87: any exception that is not a \<open>RequestException\<close>.\<close>

definition wrap_generic :: "exn \<Rightarrow> event list \<times> (exn + json list)" where
  "wrap_generic e =
     ([Log ERROR (MsgGenError (exn_str e))], Inl (RuntimeError (pre_gen_failed @ exn_str e)))"

definition call_failed_text :: "string \<Rightarrow> string option \<Rightarrow> string" where
  "call_failed_text m resp =
     pre_call_failed @ m @ (case resp of None \<Rightarrow> [] | Some t \<Rightarrow> pre_response_text @ take 200 t)"

text \<open>
  Lines 48 to 89. The test of line 49 is \<open>all_configured\<close>, written by cases so that the
  three values are at hand for the payload; a \<open>None\<close> text raises at \<open>text.strip()\<close>,
  line 54, outside the \<open>try\<close>. The second component is the exception that leaves the
  function or the embedding it returns.
\<close>

definition call_vector_service ::
  "config \<Rightarrow> (request \<Rightarrow> http_outcome) \<Rightarrow> string option \<Rightarrow> event list \<times> (exn + json list)" where
  "call_vector_service cfg post text =
     (case (VECTOR_SERVICE_URL cfg, VECTOR_MODEL cfg, VECTOR_USER cfg) of
        (Some url, Some model, Some user) \<Rightarrow>
          if url = [] \<or> model = [] \<or> user = [] then
            ([Log ERROR MsgConfigIncomplete], Inl (ValueError msg_config_missing))
          else
            (case text of
               None \<Rightarrow> ([], Inl (AttributeError ''NoneType'' ''strip''))
             | Some t \<Rightarrow>
                 let req = \<lparr>r_url = url, r_headers = VECTOR_HEADERS cfg,
                            r_json = \<lparr>p_input = [strip t], p_model = model, p_user = user\<rparr>,
                            r_timeout = 60\<rparr>;
                     sent = [Log DEBUG (MsgCallService (take 50 t)), HttpPost req]
                 in (case post req of
                       RequestFailed m resp \<Rightarrow>
                         (sent @ [Log ERROR (MsgCallFailed (call_failed_text m resp))],
                          Inl (ConnectionError (call_failed_text m resp)))
                     | OtherFailure e \<Rightarrow>
                         (sent @ fst (wrap_generic e), snd (wrap_generic e))
                     | JsonBody result \<Rightarrow>
                         (case read_response result of
                            (logs, Inl e) \<Rightarrow>
                              (sent @ logs @ fst (wrap_generic e), snd (wrap_generic e))
                          | (logs, Inr embedding) \<Rightarrow> (sent @ logs, Inr embedding))))
      | _ \<Rightarrow> ([Log ERROR MsgConfigIncomplete], Inl (ValueError msg_config_missing)))"

subsection \<open>The database and the job parameters\<close>

record params =
  db_ip :: string
  db_port :: int
  db_username :: string
  db_password :: string
  db_name :: string
  table_name :: string
  text_field_name :: string
  vector_field_name :: string

text \<open>A line of \<open>information_schema.tables\<close>, and a fetched row (\<open>id\<close>, text or NULL).\<close>

record table_entry =
  t_schema :: string
  t_name :: string
  t_type :: string

record row =
  row_id :: int
  row_text :: "string option"

text \<open>The places where the job calls the driver; \<open>CallExecUpdate idx\<close> is the update of row \<open>idx\<close>.\<close>

datatype db_call =
    CallConnect
  | CallRegisterVector
  | CallCursor
  | CallExecMatch
  | CallFetchOne
  | CallExecAllTables
  | CallFetchAllTables
  | CallExecSelect
  | CallFetchAllRows
  | CallExecUpdate nat
  | CallCommit
  | CallRollback
  | CallClose

text \<open>
  The world a job runs in: the configuration; the embedding service as it answers the
  call made for row \<open>idx\<close>; and the database server:
  \<^item> \<open>w_catalog\<close>, the lines of \<open>information_schema.tables\<close>;
  \<^item> \<open>w_lower_name\<close>, SQL \<open>lower\<close> as the server computes it on the catalog column
    \<open>table_name\<close> (under that column's collation), and \<open>w_lower_param\<close>, \<open>lower\<close> as it
    computes it on the parameter of the statement (under the database's collation);
  \<^item> \<open>w_other_text\<close>, the relation the server addresses for a table text that is not
    \<open>public.\<close> followed by a plain identifier, or \<open>None\<close> when it rejects the statement;
  \<^item> \<open>w_rows\<close>, for the exact qualified name of a relation and a column, the \<open>id\<close> and
    the column of its rows, or \<open>None\<close> when there is no such relation or column;
  \<^item> \<open>w_fault\<close>, for every driver call, the exception it raises for another reason, if
    any.
\<close>

record world =
  w_config :: config
  w_post :: "nat \<Rightarrow> request \<Rightarrow> http_outcome"
  w_catalog :: "table_entry list"
  w_lower_name :: "string \<Rightarrow> string"
  w_lower_param :: "string \<Rightarrow> string"
  w_other_text :: "string \<Rightarrow> string option"
  w_rows :: "string \<Rightarrow> string \<Rightarrow> row list option"
  w_fault :: "db_call \<Rightarrow> exn option"

text \<open>A computation: the events it produced and the exception it raised or its value.\<close>

type_synonym 'a io = "event list \<times> (exn + 'a)"

definition and_then :: "'a io \<Rightarrow> ('a \<Rightarrow> 'b io) \<Rightarrow> 'b io" where
  "and_then m f =
     (case m of
        (es, Inl e) \<Rightarrow> (es, Inl e)
      | (es, Inr v) \<Rightarrow> (es @ fst (f v), snd (f v)))"

definition attempt :: "world \<Rightarrow> db_call \<Rightarrow> event \<Rightarrow> 'a \<Rightarrow> 'a io" where
  "attempt w c ev v = ([ev], case w_fault w c of Some e \<Rightarrow> Inl e | None \<Rightarrow> Inr v)"

definition say :: "level \<Rightarrow> logmsg \<Rightarrow> unit io" where
  "say l m = ([Log l m], Inr ())"

definition give :: "'a \<Rightarrow> 'a io" where
  "give v = ([], Inr v)"

subsection \<open>Table resolution (lines 109 to 140)\<close>

text \<open>
  The query of lines 109 to 115: the names of the base tables of schema \<open>public\<close> whose
  \<open>lower\<close> equals the \<open>lower\<close> of the parameter, each \<open>lower\<close> as the server computes it
  on its side of the comparison.
\<close>

definition base_tables :: "table_entry list \<Rightarrow> string list" where
  "base_tables cat =
     map t_name (filter (\<lambda>e. t_schema e = ''public'' \<and> t_type e = ''BASE TABLE'') cat)"

definition matching_tables :: "world \<Rightarrow> string \<Rightarrow> string list" where
  "matching_tables w req =
     filter (\<lambda>n. w_lower_name w n = w_lower_param w req) (base_tables (w_catalog w))"

definition fetchone :: "'a list \<Rightarrow> 'a option" where
  "fetchone xs = (case xs of [] \<Rightarrow> None | x # _ \<Rightarrow> Some x)"

definition find_table :: "world \<Rightarrow> params \<Rightarrow> string option io" where
  "find_table w p =
     and_then (attempt w CallExecMatch (DbExec (SelectMatch (table_name p))) ())
       (\<lambda>_. attempt w CallFetchOne DbFetchOne
               (fetchone (matching_tables w (table_name p))))"

fun join_names :: "string list \<Rightarrow> string" where
  "join_names [] = []"
| "join_names [n] = n"
| "join_names (n # ns) = n @ '', '' @ join_names ns"

definition report_tables :: "world \<Rightarrow> params \<Rightarrow> unit io" where
  "report_tables w p =
     and_then (say ERROR (MsgNoMatch (table_name p)))
       (\<lambda>_. and_then (attempt w CallExecAllTables (DbExec SelectAllTables) ())
       (\<lambda>_. and_then (attempt w CallFetchAllTables DbFetchAll (sort (base_tables (w_catalog w))))
       (\<lambda>all_tables.
          if all_tables \<noteq> [] then say ERROR (MsgAllTables (db_name p) (join_names all_tables))
          else say ERROR (MsgNoTables (db_name p)))))"

subsection \<open>Fetching and the row loop (lines 143 to 177)\<close>

text \<open>
  Lines 143 to 146 and 165 to 169 put the resolved name into the statement text as it
  is, without quotes (the two column names are quoted). The server reads an unquoted
  identifier with its upper-case letters A to Z folded to lower case (no other letter,
  in a server encoding of several bytes per character such as UTF-8), so the relation
  a statement addresses is the folded name, not the stored one. A plain identifier
  starts with a letter, an underscore or a character above 127 and goes on with these,
  digits and the dollar sign; what the server makes of any other text is left to the
  world.
\<close>

definition lower_char :: "char \<Rightarrow> char" where
  "lower_char c =
     (let n = (of_char c :: nat) in if 65 \<le> n \<and> n \<le> 90 then char_of (n + 32) else c)"

definition ident_start :: "char \<Rightarrow> bool" where
  "ident_start c =
     (let n = (of_char c :: nat)
      in (65 \<le> n \<and> n \<le> 90) \<or> (97 \<le> n \<and> n \<le> 122) \<or> n = 95 \<or> 128 \<le> n)"

definition ident_cont :: "char \<Rightarrow> bool" where
  "ident_cont c =
     (let n = (of_char c :: nat) in ident_start c \<or> (48 \<le> n \<and> n \<le> 57) \<or> n = 36)"

definition plain_identifier :: "string \<Rightarrow> bool" where
  "plain_identifier n =
     (case n of [] \<Rightarrow> False | c # cs \<Rightarrow> ident_start c \<and> list_all ident_cont cs)"

definition addressed :: "world \<Rightarrow> string \<Rightarrow> string option" where
  "addressed w table_text =
     (if take 7 table_text = ''public.'' \<and> plain_identifier (drop 7 table_text)
      then Some (map lower_char table_text)
      else w_other_text w table_text)"

text \<open>
  The texts of the server's errors for a statement it rejects and for a relation or
  column that does not exist.
\<close>

definition msg_rejected :: string where
  "msg_rejected = ''statement rejected''"

definition msg_undefined :: string where
  "msg_undefined = ''relation or column does not exist''"

text \<open>Line 147: \<open>cur.execute(query)\<close>, with the rows the server holds ready for the fetch.\<close>

definition exec_select :: "world \<Rightarrow> params \<Rightarrow> string \<Rightarrow> row list io" where
  "exec_select w p full_table_name =
     ([DbExec (SelectRows full_table_name (text_field_name p))],
      case w_fault w CallExecSelect of
        Some e \<Rightarrow> Inl e
      | None \<Rightarrow>
          (case addressed w full_table_name of
             None \<Rightarrow> Inl (Psycopg2Error msg_rejected)
           | Some relation \<Rightarrow>
               (case w_rows w relation (text_field_name p) of
                  None \<Rightarrow> Inl (Psycopg2Error msg_undefined)
                | Some rows \<Rightarrow> Inr rows)))"

definition fetch_rows :: "world \<Rightarrow> params \<Rightarrow> string \<Rightarrow> row list io" where
  "fetch_rows w p full_table_name =
     and_then (exec_select w p full_table_name)
       (\<lambda>held. and_then (attempt w CallFetchAllRows DbFetchAll held)
       (\<lambda>rows. and_then (say INFO (MsgFound (length rows)))
       (\<lambda>_. give rows)))"

text \<open>
  The body of the \<open>try\<close> of lines 162 to 173 for the row numbered \<open>idx\<close>: the embedding
  call, then the update, then the progress line on every tenth row.
\<close>

definition try_row :: "world \<Rightarrow> params \<Rightarrow> string \<Rightarrow> nat \<Rightarrow> nat \<Rightarrow> row \<Rightarrow> unit io" where
  "try_row w p full_table_name total_rows idx r =
     and_then (call_vector_service (w_config w) (w_post w idx) (row_text r))
       (\<lambda>embedding.
          and_then (attempt w (CallExecUpdate idx)
                      (DbExec (Update full_table_name (vector_field_name p) embedding (row_id r))) ())
       (\<lambda>_. if idx mod 10 = 0 then say INFO (MsgProgress idx total_rows) else give ()))"

text \<open>
  One turn of the loop: the events, and the two counters after it. The handler of line
  174 catches every exception of the \<open>try\<close>.
\<close>

definition process_row ::
  "world \<Rightarrow> params \<Rightarrow> string \<Rightarrow> nat \<Rightarrow> nat \<Rightarrow> row \<Rightarrow> nat \<times> nat \<Rightarrow> event list \<times> (nat \<times> nat)" where
  "process_row w p full_table_name total_rows idx r counts =
     (case try_row w p full_table_name total_rows idx r of
        (es, Inr _) \<Rightarrow> (es, (Suc (fst counts), snd counts))
      | (es, Inl e) \<Rightarrow>
          (es @ [Log ERROR (MsgRowFailed idx (row_id r) (exn_str e))],
           (fst counts, Suc (snd counts))))"

fun process_rows ::
  "world \<Rightarrow> params \<Rightarrow> string \<Rightarrow> nat \<Rightarrow> nat \<Rightarrow> row list \<Rightarrow> nat \<times> nat \<Rightarrow> event list \<times> (nat \<times> nat)" where
  "process_rows w p full_table_name total_rows idx [] counts = ([], counts)"
| "process_rows w p full_table_name total_rows idx (r # rs) counts =
     (let step = process_row w p full_table_name total_rows idx r counts;
          rest = process_rows w p full_table_name total_rows (Suc idx) rs (snd step)
      in (fst step @ fst rest, snd rest))"

subsection \<open>The job: \<open>batch_refresh_embeddings\<close>\<close>

text \<open>The three places where the \<open>try\<close> block ends without an exception: lines 137, 154, 180.\<close>

datatype outcome = TableNotFound | NoRecords | Refreshed nat nat

text \<open>Lines 156 to 180: the loop over the fetched rows, the commit and the tally.\<close>

definition refresh_rows :: "world \<Rightarrow> params \<Rightarrow> string \<Rightarrow> row list \<Rightarrow> outcome io" where
  "refresh_rows w p full_table_name rows =
     (let loop = process_rows w p full_table_name (length rows) 1 rows (0, 0) in
      and_then (fst loop, Inr (snd loop))
        (\<lambda>counts. and_then (attempt w CallCommit DbCommit ())
        (\<lambda>_. and_then (say INFO (MsgDone (fst counts) (snd counts)))
        (\<lambda>_. give (Refreshed (fst counts) (snd counts))))))"

text \<open>Lines 138 to 180, run once the table is found.\<close>

definition refresh_table :: "world \<Rightarrow> params \<Rightarrow> string \<Rightarrow> outcome io" where
  "refresh_table w p actual_table_name =
     (let full_table_name = ''public.'' @ actual_table_name in
      and_then (say INFO (MsgMatched full_table_name))
        (\<lambda>_. and_then (fetch_rows w p full_table_name)
        (\<lambda>rows.
           if length rows = 0 then and_then (say INFO MsgNothing) (\<lambda>_. give NoRecords)
           else refresh_rows w p full_table_name rows)))"

text \<open>Lines 105 to 180, run once the connection is open.\<close>

definition refresh_body :: "world \<Rightarrow> params \<Rightarrow> outcome io" where
  "refresh_body w p =
     and_then (attempt w CallRegisterVector DbRegisterVector ())
       (\<lambda>_. and_then (attempt w CallCursor DbCursor ())
       (\<lambda>_. and_then (find_table w p)
       (\<lambda>match_table.
          case match_table of
            None \<Rightarrow> and_then (report_tables w p) (\<lambda>_. give TableNotFound)
          | Some actual_table_name \<Rightarrow> refresh_table w p actual_table_name)))"

text \<open>Lines 95 to 180: \<open>conn\<close> is set exactly when \<open>psycopg2.connect\<close> returned.\<close>

definition try_block :: "world \<Rightarrow> params \<Rightarrow> bool \<times> outcome io" where
  "try_block w p =
     (let start = [Log INFO (MsgConnecting (db_ip p) (db_port p) (db_name p)),
                   DbConnect (db_ip p) (db_port p) (db_name p) (db_username p) (db_password p)]
      in case w_fault w CallConnect of
           Some e \<Rightarrow> (False, (start, Inl e))
         | None \<Rightarrow> (True, (start @ fst (refresh_body w p), snd (refresh_body w p))))"

text \<open>The two \<open>except\<close> clauses, lines 182 to 187.\<close>

definition handlers :: "world \<Rightarrow> bool \<Rightarrow> exn + outcome \<Rightarrow> unit io" where
  "handlers w conn r =
     (case r of
        Inr v \<Rightarrow> give ()
      | Inl e \<Rightarrow>
          if is_psycopg2_error e then
            and_then (if conn then attempt w CallRollback DbRollback () else give ())
              (\<lambda>_. say ERROR (MsgDbFailed (exn_str e)))
          else say ERROR (MsgJobError (exn_str e)))"

text \<open>The \<open>finally\<close> clause, lines 188 to 191.\<close>

definition finally_clause :: "world \<Rightarrow> bool \<Rightarrow> unit io" where
  "finally_clause w conn =
     (if conn then and_then (attempt w CallClose DbClose ()) (\<lambda>_. say INFO MsgClosed)
      else give ())"

text \<open>
  What a run of the job leaves: the trace, the exception that leaves the function (one
  raised by the rollback in a handler or by the close in \<open>finally\<close>; the latter
  replaces the former), and the place where the \<open>try\<close> block returned, if it did.
\<close>

record job_result =
  trace :: "event list"
  raised :: "exn option"
  outcome :: "outcome option"

definition batch_refresh_embeddings :: "world \<Rightarrow> params \<Rightarrow> job_result" where
  "batch_refresh_embeddings w p =
     (let conn = fst (try_block w p);
          body = snd (try_block w p);
          handled = handlers w conn (snd body);
          closing = finally_clause w conn
      in \<lparr>trace = fst body @ fst handled @ fst closing,
          raised = (case snd closing of
                      Inl e \<Rightarrow> Some e
                    | Inr _ \<Rightarrow> (case snd handled of Inl e \<Rightarrow> Some e | Inr _ \<Rightarrow> None)),
          outcome = (case snd body of Inl e \<Rightarrow> None | Inr v \<Rightarrow> Some v)\<rparr>)"

subsection \<open>The health check (lines 215 to 221)\<close>

record health =
  h_status :: string
  h_service :: string
  vector_service_configured :: bool

definition health_check :: "config \<Rightarrow> health" where
  "health_check cfg =
     \<lparr>h_status = ''healthy'', h_service = ''pg-embedding-refresher'',
      vector_service_configured = env_truthy (VECTOR_SERVICE_URL cfg)\<rparr>"

subsection \<open>Readings of the trace\<close>

fun is_update :: "event \<Rightarrow> bool" where
  "is_update (DbExec (Update t c v i)) = True"
| "is_update ev = False"

fun is_http_post :: "event \<Rightarrow> bool" where
  "is_http_post (HttpPost req) = True"
| "is_http_post ev = False"

fun is_row_failure :: "event \<Rightarrow> bool" where
  "is_row_failure (Log ERROR (MsgRowFailed idx i m)) = True"
| "is_row_failure ev = False"

text \<open>The events of one turn of the loop, and whether the turn ended in the handler.\<close>

definition row_events :: "world \<Rightarrow> params \<Rightarrow> string \<Rightarrow> nat \<Rightarrow> nat \<Rightarrow> row \<Rightarrow> event list" where
  "row_events w p full_table_name total_rows idx r =
     fst (process_row w p full_table_name total_rows idx r (0, 0))"

definition row_fails :: "world \<Rightarrow> params \<Rightarrow> string \<Rightarrow> nat \<Rightarrow> nat \<Rightarrow> row \<Rightarrow> bool" where
  "row_fails w p full_table_name total_rows idx r =
     (case snd (try_row w p full_table_name total_rows idx r) of Inl e \<Rightarrow> True | Inr u \<Rightarrow> False)"

text \<open>The driver calls up to the table lookup, and up to the fetch, raise nothing.\<close>

definition lookup_runs :: "world \<Rightarrow> bool" where
  "lookup_runs w =
     (w_fault w CallConnect = None \<and> w_fault w CallRegisterVector = None \<and>
      w_fault w CallCursor = None \<and> w_fault w CallExecMatch = None \<and>
      w_fault w CallFetchOne = None)"

definition fetch_runs :: "world \<Rightarrow> bool" where
  "fetch_runs w =
     (lookup_runs w \<and> w_fault w CallExecSelect = None \<and> w_fault w CallFetchAllRows = None)"

subsection \<open>The shapes of a response body\<close>

text \<open>
  The four ways lines 70 to 79 can end, read off the body: a usable embedding; no usable
  \<open>data\<close> (line 72); no usable \<open>embedding\<close> (line 77); or a value without \<open>.get\<close>
  where a dict is expected, either the body itself or the first element of \<open>data\<close>.
\<close>

datatype body_shape = Usable "json list" | NoData | NoEmbedding | NotADict string

definition body_shape :: "json \<Rightarrow> body_shape" where
  "body_shape body =
     (case body of
        JObj kvs \<Rightarrow>
          (case map_of kvs ''data'' of
             Some (JArr (first # rest)) \<Rightarrow>
               (case first of
                  JObj kvs2 \<Rightarrow>
                    (case map_of kvs2 ''embedding'' of
                       Some (JArr (x # xs)) \<Rightarrow> Usable (x # xs)
                     | _ \<Rightarrow> NoEmbedding)
                | _ \<Rightarrow> NotADict (type_name first))
           | _ \<Rightarrow> NoData)
      | _ \<Rightarrow> NotADict (type_name body))"

text \<open>A service that answers every request with the same decoded body.\<close>

definition answers :: "json \<Rightarrow> request \<Rightarrow> http_outcome" where
  "answers body req = JsonBody body"

subsection \<open>Example inputs\<close>

text \<open>
  A configured service that answers every non-empty text with a vector of three numbers
  and refuses the empty text. A server whose schema \<open>public\<close> holds the tables \<open>users\<close>
  (no rows), \<open>docs\<close> (three rows, the second with empty text) and \<open>notes\<close> (two rows, the
  first with a NULL text) and a view \<open>missing\<close>, and whose schema \<open>archive\<close> holds a table
  \<open>missing\<close>; it folds the letters A to Z on catalog names and all the letters below 256
  on parameters. A second server, \<open>w_mixed\<close>, holds the single table \<open>Docs\<close>.
\<close>

definition ascii_lower :: "string \<Rightarrow> string" where
  "ascii_lower s = map lower_char s"

definition latin1_lower_char :: "char \<Rightarrow> char" where
  "latin1_lower_char c =
     (let n = (of_char c :: nat)
      in if (65 \<le> n \<and> n \<le> 90) \<or> (192 \<le> n \<and> n \<le> 222 \<and> n \<noteq> 215) then char_of (n + 32)
         else c)"

definition latin1_lower :: "string \<Rightarrow> string" where
  "latin1_lower s = map latin1_lower_char s"

definition cfg_ok :: config where
  "cfg_ok = \<lparr>VECTOR_SERVICE_URL = Some ''http://embed'', VECTOR_MODEL = Some ''m1'',
             VECTOR_USER = Some ''u1'', VECTOR_HEADERS = []\<rparr>"

definition cfg_url_only :: config where
  "cfg_url_only = \<lparr>VECTOR_SERVICE_URL = Some ''http://embed'', VECTOR_MODEL = None,
                   VECTOR_USER = None, VECTOR_HEADERS = []\<rparr>"

definition body_ok :: json where
  "body_ok = JObj [(''data'', JArr [JObj [(''embedding'', JArr [JInt 1, JInt 2, JInt 3])]])]"

definition body_number_element :: json where
  "body_number_element = JObj [(''data'', JArr [JInt 1])]"

definition post_demo :: "nat \<Rightarrow> request \<Rightarrow> http_outcome" where
  "post_demo idx req =
     (if p_input (r_json req) = [[]] then RequestFailed ''empty input'' None
      else JsonBody body_ok)"

definition rows_docs :: "row list" where
  "rows_docs =
     [\<lparr>row_id = 1, row_text = Some ''hello''\<rparr>, \<lparr>row_id = 2, row_text = Some []\<rparr>,
      \<lparr>row_id = 3, row_text = Some ''world''\<rparr>]"

definition rows_demo :: "string \<Rightarrow> string \<Rightarrow> row list option" where
  "rows_demo t c =
     (if t = ''public.docs'' then Some rows_docs
      else if t = ''public.notes'' then
        Some [\<lparr>row_id = 7, row_text = None\<rparr>, \<lparr>row_id = 8, row_text = Some ''x''\<rparr>]
      else if t = ''public.users'' then Some []
      else None)"

definition catalog_demo :: "table_entry list" where
  "catalog_demo =
     [\<lparr>t_schema = ''archive'', t_name = ''missing'', t_type = ''BASE TABLE''\<rparr>,
      \<lparr>t_schema = ''public'', t_name = ''missing'', t_type = ''VIEW''\<rparr>,
      \<lparr>t_schema = ''public'', t_name = ''users'', t_type = ''BASE TABLE''\<rparr>,
      \<lparr>t_schema = ''public'', t_name = ''docs'', t_type = ''BASE TABLE''\<rparr>,
      \<lparr>t_schema = ''public'', t_name = ''notes'', t_type = ''BASE TABLE''\<rparr>]"

definition w_demo :: world where
  "w_demo = \<lparr>w_config = cfg_ok, w_post = post_demo, w_catalog = catalog_demo,
             w_lower_name = ascii_lower, w_lower_param = latin1_lower,
             w_other_text = (\<lambda>t. None), w_rows = rows_demo, w_fault = (\<lambda>c. None)\<rparr>"

definition rows_mixed :: "string \<Rightarrow> string \<Rightarrow> row list option" where
  "rows_mixed t c = (if t = ''public.Docs'' then Some rows_docs else None)"

definition w_mixed :: world where
  "w_mixed = \<lparr>w_config = cfg_ok, w_post = post_demo,
              w_catalog = [\<lparr>t_schema = ''public'', t_name = ''Docs'', t_type = ''BASE TABLE''\<rparr>],
              w_lower_name = ascii_lower, w_lower_param = latin1_lower,
              w_other_text = (\<lambda>t. None), w_rows = rows_mixed, w_fault = (\<lambda>c. None)\<rparr>"

definition p_demo :: "string \<Rightarrow> params" where
  "p_demo t = \<lparr>db_ip = ''h'', db_port = 5432, db_username = ''u'', db_password = ''pw'',
              db_name = ''db'', table_name = t, text_field_name = ''body'',
              vector_field_name = ''vec''\<rparr>"

section \<open>Properties\<close>

subsection \<open>Reading a sequence of computations\<close>

lemma fst_and_then:
  "fst (and_then m f) = fst m @ (case snd m of Inl e \<Rightarrow> [] | Inr u \<Rightarrow> fst (f u))"
  by (cases m) (auto simp: and_then_def split: sum.splits)

lemma snd_and_then:
  "snd (and_then m f) = (case snd m of Inl e \<Rightarrow> Inl e | Inr u \<Rightarrow> snd (f u))"
  by (cases m) (auto simp: and_then_def split: sum.splits)

lemma fst_attempt: "fst (attempt w c ev v) = [ev]"
  by (simp add: attempt_def)

lemma snd_attempt:
  "snd (attempt w c ev v) = (case w_fault w c of Some e \<Rightarrow> Inl e | None \<Rightarrow> Inr v)"
  by (simp add: attempt_def)

lemma fst_say: "fst (say l m) = [Log l m]"
  by (simp add: say_def)

lemma snd_say: "snd (say l m) = Inr ()"
  by (simp add: say_def)

lemma fst_give: "fst (give v) = []"
  by (simp add: give_def)

lemma snd_give: "snd (give v) = Inr v"
  by (simp add: give_def)

lemmas io_simps =
  fst_and_then snd_and_then fst_attempt snd_attempt fst_say snd_say fst_give snd_give

subsection \<open>The counters of the loop\<close>

lemma process_row_counts:
  "snd (process_row w p ft n idx r (s, f)) = (Suc s, f) \<or>
   snd (process_row w p ft n idx r (s, f)) = (s, Suc f)"
  by (simp add: process_row_def split: prod.splits sum.splits)

lemma process_row_sum:
  "fst (snd (process_row w p ft n idx r c)) + snd (snd (process_row w p ft n idx r c))
     = Suc (fst c + snd c)"
  by (simp add: process_row_def split: prod.splits sum.splits)

lemma process_rows_sum:
  "fst (snd (process_rows w p ft n idx rows c)) + snd (snd (process_rows w p ft n idx rows c))
     = fst c + snd c + length rows"
  by (induction rows arbitrary: idx c) (simp_all add: Let_def process_row_sum)

subsection \<open>The job that reaches the loop\<close>

lemma refresh_rows_snd:
  "snd (refresh_rows w p ft rows) =
     (case w_fault w CallCommit of
        Some e \<Rightarrow> Inl e
      | None \<Rightarrow> Inr (Refreshed (fst (snd (process_rows w p ft (length rows) 1 rows (0, 0))))
                              (snd (snd (process_rows w p ft (length rows) 1 rows (0, 0))))))"
  by (simp add: refresh_rows_def Let_def io_simps split: option.splits)

lemma refresh_rows_fst:
  "fst (refresh_rows w p ft rows) =
     fst (process_rows w p ft (length rows) 1 rows (0, 0)) @ [DbCommit] @
     (case w_fault w CallCommit of
        Some e \<Rightarrow> []
      | None \<Rightarrow> [Log INFO (MsgDone (fst (snd (process_rows w p ft (length rows) 1 rows (0, 0))))
                              (snd (snd (process_rows w p ft (length rows) 1 rows (0, 0)))))])"
  by (simp add: refresh_rows_def Let_def io_simps split: option.splits)

lemma snd_exec_select_Inr:
  "snd (exec_select w p ft) = Inr rows \<Longrightarrow>
     \<exists>relation. addressed w ft = Some relation \<and> w_rows w relation (text_field_name p) = Some rows"
  by (auto simp: exec_select_def split: option.splits)

lemma fst_exec_select: "fst (exec_select w p ft) = [DbExec (SelectRows ft (text_field_name p))]"
  by (simp add: exec_select_def)

lemma snd_fetch_rows:
  "snd (fetch_rows w p ft) =
     (case snd (exec_select w p ft) of
        Inl e \<Rightarrow> Inl e
      | Inr rows \<Rightarrow> (case w_fault w CallFetchAllRows of Some e \<Rightarrow> Inl e | None \<Rightarrow> Inr rows))"
  by (simp add: fetch_rows_def io_simps split: sum.splits option.splits)

lemma fst_fetch_rows:
  "fst (fetch_rows w p ft) =
     DbExec (SelectRows ft (text_field_name p)) #
     (case snd (exec_select w p ft) of
        Inl e \<Rightarrow> []
      | Inr rows \<Rightarrow>
          DbFetchAll #
          (case w_fault w CallFetchAllRows of
             Some e \<Rightarrow> []
           | None \<Rightarrow> [Log INFO (MsgFound (length rows))]))"
  by (simp add: fetch_rows_def io_simps fst_exec_select split: sum.splits option.splits)

lemma refresh_table_Refreshed:
  assumes "snd (refresh_table w p a) = Inr (Refreshed s f)"
  shows "\<exists>relation rows.
           addressed w (''public.'' @ a) = Some relation \<and>
           w_rows w relation (text_field_name p) = Some rows \<and>
           s + f = length rows \<and> rows \<noteq> [] \<and>
           Log INFO (MsgDone s f) \<in> set (fst (refresh_table w p a))"
proof -
  from assms obtain rows where
    f: "snd (fetch_rows w p (''public.'' @ a)) = Inr rows" and
    n: "rows \<noteq> []" and
    r: "snd (refresh_rows w p (''public.'' @ a) rows) = Inr (Refreshed s f)"
    by (auto simp: refresh_table_def Let_def io_simps split: sum.splits if_splits)
  from f have e: "snd (exec_select w p (''public.'' @ a)) = Inr rows"
    by (auto simp: snd_fetch_rows split: sum.splits option.splits)
  from snd_exec_select_Inr[OF e] obtain relation where
    a: "addressed w (''public.'' @ a) = Some relation"
       "w_rows w relation (text_field_name p) = Some rows"
    by blast
  from r have c: "s + f = length rows"
    using process_rows_sum[of w p "''public.'' @ a" "length rows" 1 rows "(0, 0)"]
    by (auto simp: refresh_rows_snd split: option.splits)
  from r have "Log INFO (MsgDone s f) \<in> set (fst (refresh_rows w p (''public.'' @ a) rows))"
    by (auto simp: refresh_rows_snd refresh_rows_fst split: option.splits)
  then have l: "Log INFO (MsgDone s f) \<in> set (fst (refresh_table w p a))"
    using f n by (simp add: refresh_table_def Let_def io_simps)
  from a c n l show ?thesis by blast
qed

lemma refresh_body_Refreshed:
  assumes "snd (refresh_body w p) = Inr (Refreshed s f)"
  shows "\<exists>a. fetchone (matching_tables w (table_name p)) = Some a \<and>
             snd (refresh_table w p a) = Inr (Refreshed s f) \<and>
             set (fst (refresh_table w p a)) \<subseteq> set (fst (refresh_body w p))"
  using assms
  by (auto simp: refresh_body_def find_table_def report_tables_def io_simps
      split: option.splits if_splits sum.splits)

lemma job_Refreshed:
  assumes "outcome (batch_refresh_embeddings w p) = Some (Refreshed s f)"
  shows "snd (refresh_body w p) = Inr (Refreshed s f) \<and>
         set (fst (refresh_body w p)) \<subseteq> set (trace (batch_refresh_embeddings w p))"
  using assms
  by (auto simp: batch_refresh_embeddings_def Let_def try_block_def split: option.splits sum.splits)

text \<open>
  Claim C1. When a job reaches the loop and completes, the success counter plus the
  failure counter is the number of fetched rows (the rows of the relation the select
  statement addresses), and the tally line carries these two counters. Each turn of the
  loop adds one to exactly one of the two counters, so from any starting counters the
  loop adds the number of rows to their sum.
\<close>

theorem counters_sum_to_rows:
  "(outcome (batch_refresh_embeddings w p) = Some (Refreshed s f) \<longrightarrow>
      (\<exists>actual relation fetched.
         fetchone (matching_tables w (table_name p)) = Some actual \<and>
         addressed w (''public.'' @ actual) = Some relation \<and>
         w_rows w relation (text_field_name p) = Some fetched \<and>
         s + f = length fetched \<and>
         Log INFO (MsgDone s f) \<in> set (trace (batch_refresh_embeddings w p)))) \<and>
   (snd (process_row w p ft n idx r (s0, f0)) = (Suc s0, f0) \<or>
    snd (process_row w p ft n idx r (s0, f0)) = (s0, Suc f0)) \<and>
   fst (snd (process_rows w p ft n idx rows (s0, f0))) +
     snd (snd (process_rows w p ft n idx rows (s0, f0))) = s0 + f0 + length rows"
proof (intro conjI impI)
  assume a: "outcome (batch_refresh_embeddings w p) = Some (Refreshed s f)"
  from job_Refreshed[OF a] obtain actual where
    m: "fetchone (matching_tables w (table_name p)) = Some actual" and
    t: "snd (refresh_table w p actual) = Inr (Refreshed s f)" and
    sub: "set (fst (refresh_table w p actual)) \<subseteq> set (trace (batch_refresh_embeddings w p))"
    using refresh_body_Refreshed by blast
  from refresh_table_Refreshed[OF t] obtain relation fetched where
    "addressed w (''public.'' @ actual) = Some relation"
    "w_rows w relation (text_field_name p) = Some fetched"
    "s + f = length fetched"
    "Log INFO (MsgDone s f) \<in> set (fst (refresh_table w p actual))"
    by blast
  with sub m
  show "\<exists>actual relation fetched.
         fetchone (matching_tables w (table_name p)) = Some actual \<and>
         addressed w (''public.'' @ actual) = Some relation \<and>
         w_rows w relation (text_field_name p) = Some fetched \<and>
         s + f = length fetched \<and>
         Log INFO (MsgDone s f) \<in> set (trace (batch_refresh_embeddings w p))"
    by blast
next
  show "snd (process_row w p ft n idx r (s0, f0)) = (Suc s0, f0) \<or>
    snd (process_row w p ft n idx r (s0, f0)) = (s0, Suc f0)"
    by (rule process_row_counts)
next
  show "fst (snd (process_rows w p ft n idx rows (s0, f0))) +
     snd (snd (process_rows w p ft n idx rows (s0, f0))) = s0 + f0 + length rows"
    using process_rows_sum[of w p ft n idx rows "(s0, f0)"] by simp
qed

theorem counters_sum_to_rows_witness:
  "outcome (batch_refresh_embeddings w_demo (p_demo ''Docs'')) = Some (Refreshed 2 1) \<and>
   fetchone (matching_tables w_demo (table_name (p_demo ''Docs''))) = Some ''docs'' \<and>
   addressed w_demo (''public.'' @ ''docs'') = Some ''public.docs'' \<and>
   w_rows w_demo ''public.docs'' (text_field_name (p_demo ''Docs'')) = Some rows_docs \<and>
   (2::nat) + 1 = length rows_docs \<and>
   Log INFO (MsgDone 2 1) \<in> set (trace (batch_refresh_embeddings w_demo (p_demo ''Docs'')))"
proof -
  have o: "outcome (batch_refresh_embeddings w_demo (p_demo ''Docs'')) = Some (Refreshed 2 1)"
    by code_simp
  have m: "fetchone (matching_tables w_demo (table_name (p_demo ''Docs''))) = Some ''docs''"
    by code_simp
  have a: "addressed w_demo (''public.'' @ ''docs'') = Some ''public.docs''"
    by code_simp
  have r: "w_rows w_demo ''public.docs'' (text_field_name (p_demo ''Docs'')) = Some rows_docs"
    by code_simp
  from counters_sum_to_rows[of w_demo "p_demo ''Docs''" 2 1, THEN conjunct1] o
  obtain actual relation fetched where
    x: "fetchone (matching_tables w_demo (table_name (p_demo ''Docs''))) = Some actual"
       "addressed w_demo (''public.'' @ actual) = Some relation"
       "w_rows w_demo relation (text_field_name (p_demo ''Docs'')) = Some fetched"
       "2 + 1 = length fetched"
       "Log INFO (MsgDone 2 1) \<in> set (trace (batch_refresh_embeddings w_demo (p_demo ''Docs'')))"
    by blast
  from x(1) m have "actual = ''docs''" by simp
  with x(2) a have "relation = ''public.docs''" by simp
  with x(3) r have "fetched = rows_docs" by simp
  with x(4) x(5) o m a r show ?thesis by simp
qed

subsection \<open>A failing row does not stop the loop\<close>

lemma process_row_fst_indep:
  "fst (process_row w p ft n idx r c) = row_events w p ft n idx r"
  by (cases "try_row w p ft n idx r") (auto simp: row_events_def process_row_def split: sum.splits)

lemma row_events_eq:
  "row_events w p ft n idx r =
     fst (try_row w p ft n idx r) @
     (case snd (try_row w p ft n idx r) of
        Inl e \<Rightarrow> [Log ERROR (MsgRowFailed idx (row_id r) (exn_str e))]
      | Inr u \<Rightarrow> [])"
  by (cases "try_row w p ft n idx r") (auto simp: row_events_def process_row_def split: sum.splits)

lemma process_row_failed:
  "row_fails w p ft n idx r \<Longrightarrow> snd (process_row w p ft n idx r (s, f)) = (s, Suc f)"
  by (cases "try_row w p ft n idx r") (auto simp: row_fails_def process_row_def split: sum.splits)

lemma process_row_succeeded:
  "\<not> row_fails w p ft n idx r \<Longrightarrow> snd (process_row w p ft n idx r (s, f)) = (Suc s, f)"
  by (cases "try_row w p ft n idx r") (auto simp: row_fails_def process_row_def split: sum.splits)

lemma process_rows_fst_indep:
  "fst (process_rows w p ft n idx rows c) = fst (process_rows w p ft n idx rows c')"
proof (induction rows arbitrary: idx c c')
  case Nil
  show ?case by simp
next
  case (Cons r rs)
  have "fst (process_rows w p ft n (Suc idx) rs (snd (process_row w p ft n idx r c))) =
        fst (process_rows w p ft n (Suc idx) rs (snd (process_row w p ft n idx r c')))"
    by (rule Cons.IH)
  then show ?case by (simp add: Let_def process_row_fst_indep)
qed

lemma process_rows_split:
  "fst (process_rows w p ft n idx (xs @ r # ys) c) =
     fst (process_rows w p ft n idx xs c) @ row_events w p ft n (idx + length xs) r @
     fst (process_rows w p ft n (Suc (idx + length xs)) ys c)"
proof (induction xs arbitrary: idx c)
  case Nil
  show ?case
    using process_rows_fst_indep[of w p ft n "Suc idx" ys "snd (process_row w p ft n idx r c)" c]
    by (simp add: Let_def process_row_fst_indep)
next
  case (Cons x xs)
  show ?case
    using Cons.IH[of "Suc idx" c]
      process_rows_fst_indep[of w p ft n "Suc idx" _ "snd (process_row w p ft n idx x c)" c]
    by (simp add: Let_def)
qed

lemma try_row_starts_with_call:
  "\<exists>rest. fst (try_row w p ft n idx r) =
      fst (call_vector_service (w_config w) (w_post w idx) (row_text r)) @ rest"
  by (simp add: try_row_def io_simps)

lemma row_outcome_visible:
  "(\<exists>emb. DbExec (Update ft (vector_field_name p) emb (row_id r)) \<in> set (row_events w p ft n idx r)) \<or>
   (\<exists>msg. Log ERROR (MsgRowFailed idx (row_id r) msg) \<in> set (row_events w p ft n idx r))"
  by (auto simp: row_events_eq try_row_def io_simps split: sum.splits option.splits)

lemma row_fails_logged:
  "row_fails w p ft n idx r \<Longrightarrow>
     \<exists>msg. row_events w p ft n idx r =
        fst (try_row w p ft n idx r) @ [Log ERROR (MsgRowFailed idx (row_id r) msg)]"
  by (auto simp: row_events_eq row_fails_def split: sum.splits)

text \<open>
Claim C2. Let \<open>r2\<close> follow \<open>r1\<close> in the fetched rows and let the turn of \<open>r1\<close> fail
  (in the embedding call or in the update). Then the events of the turn of \<open>r2\<close> are in
  the trace of the loop after those of \<open>r1\<close>; the turn of \<open>r1\<close> ends with the failure
  line carrying its number and identifier and adds one to the failure counter only; and
  the turn of \<open>r2\<close> starts with the embedding call on its text and leaves either its
  update statement or its own failure line.
\<close>

theorem failed_row_does_not_stop_loop:
  assumes "rows = pre @ r1 # mid @ r2 # post"
    and "row_fails w p ft n (idx + length pre) r1"
  shows "(\<exists>before between after.
            fst (process_rows w p ft n idx rows c) =
              before @ row_events w p ft n (idx + length pre) r1 @ between @
              row_events w p ft n (idx + length pre + Suc (length mid)) r2 @ after) \<and>
         (\<exists>msg. row_events w p ft n (idx + length pre) r1 =
              fst (try_row w p ft n (idx + length pre) r1) @
              [Log ERROR (MsgRowFailed (idx + length pre) (row_id r1) msg)]) \<and>
         snd (process_row w p ft n (idx + length pre) r1 (s, f)) = (s, Suc f) \<and>
         (\<exists>rest. row_events w p ft n (idx + length pre + Suc (length mid)) r2 =
              fst (call_vector_service (w_config w) (w_post w (idx + length pre + Suc (length mid)))
                     (row_text r2)) @ rest \<and> rest \<noteq> []) \<and>
         ((\<exists>emb. DbExec (Update ft (vector_field_name p) emb (row_id r2))
                 \<in> set (row_events w p ft n (idx + length pre + Suc (length mid)) r2)) \<or>
          (\<exists>msg. Log ERROR (MsgRowFailed (idx + length pre + Suc (length mid)) (row_id r2) msg)
                 \<in> set (row_events w p ft n (idx + length pre + Suc (length mid)) r2)))"
proof (intro conjI)
  let ?i1 = "idx + length pre"
  let ?i2 = "idx + length pre + Suc (length mid)"
  have a: "fst (process_rows w p ft n idx (pre @ r1 # (mid @ r2 # post)) c) =
          fst (process_rows w p ft n idx pre c) @ row_events w p ft n ?i1 r1 @
          fst (process_rows w p ft n (Suc ?i1) (mid @ r2 # post) c)"
    by (rule process_rows_split)
  have b: "fst (process_rows w p ft n (Suc ?i1) (mid @ r2 # post) c) =
          fst (process_rows w p ft n (Suc ?i1) mid c) @ row_events w p ft n (Suc ?i1 + length mid) r2 @
          fst (process_rows w p ft n (Suc (Suc ?i1 + length mid)) post c)"
    by (rule process_rows_split)
  have "fst (process_rows w p ft n idx rows c) =
          fst (process_rows w p ft n idx pre c) @ row_events w p ft n ?i1 r1 @
          fst (process_rows w p ft n (Suc ?i1) mid c) @ row_events w p ft n ?i2 r2 @
          fst (process_rows w p ft n (Suc ?i2) post c)"
    using a b assms(1) by simp
  then show "\<exists>before between after.
            fst (process_rows w p ft n idx rows c) =
              before @ row_events w p ft n ?i1 r1 @ between @ row_events w p ft n ?i2 r2 @ after"
    by blast
next
  show "\<exists>msg. row_events w p ft n (idx + length pre) r1 =
              fst (try_row w p ft n (idx + length pre) r1) @
              [Log ERROR (MsgRowFailed (idx + length pre) (row_id r1) msg)]"
    using assms(2) by (rule row_fails_logged)
next
  show "snd (process_row w p ft n (idx + length pre) r1 (s, f)) = (s, Suc f)"
    using assms(2) by (rule process_row_failed)
next
  let ?i2 = "idx + length pre + Suc (length mid)"
  obtain rest where r: "fst (try_row w p ft n ?i2 r2) =
      fst (call_vector_service (w_config w) (w_post w ?i2) (row_text r2)) @ rest"
    using try_row_starts_with_call by blast
  show "\<exists>rest. row_events w p ft n ?i2 r2 =
              fst (call_vector_service (w_config w) (w_post w ?i2) (row_text r2)) @ rest \<and> rest \<noteq> []"
  proof (cases "snd (try_row w p ft n ?i2 r2)")
    case (Inl e)
    then show ?thesis using r by (simp add: row_events_eq)
  next
    case (Inr u)
    then have "rest \<noteq> []" using r
      by (auto simp: try_row_def io_simps split: sum.splits option.splits if_splits)
    then show ?thesis using r Inr by (simp add: row_events_eq)
  qed
next
  show "(\<exists>emb. DbExec (Update ft (vector_field_name p) emb (row_id r2))
                 \<in> set (row_events w p ft n (idx + length pre + Suc (length mid)) r2)) \<or>
          (\<exists>msg. Log ERROR (MsgRowFailed (idx + length pre + Suc (length mid)) (row_id r2) msg)
                 \<in> set (row_events w p ft n (idx + length pre + Suc (length mid)) r2))"
    by (rule row_outcome_visible)
qed

theorem failed_row_does_not_stop_loop_witness:
  "rows_docs =
     [\<lparr>row_id = 1, row_text = Some ''hello''\<rparr>] @ \<lparr>row_id = 2, row_text = Some []\<rparr> # [] @
     \<lparr>row_id = 3, row_text = Some ''world''\<rparr> # [] \<and>
   row_fails w_demo (p_demo ''docs'') ''public.docs'' 3
     (1 + length [\<lparr>row_id = 1, row_text = Some ''hello''\<rparr>]) \<lparr>row_id = 2, row_text = Some []\<rparr> \<and>
   snd (process_row w_demo (p_demo ''docs'') ''public.docs'' 3
     (1 + length [\<lparr>row_id = 1, row_text = Some ''hello''\<rparr>]) \<lparr>row_id = 2, row_text = Some []\<rparr> (1, 0))
     = (1, Suc 0) \<and>
   DbExec (Update ''public.docs'' ''vec'' [JInt 1, JInt 2, JInt 3] 3)
     \<in> set (fst (process_rows w_demo (p_demo ''docs'') ''public.docs'' 3 1
                    rows_docs (0, 0)))"
proof -
  have h1: "rows_docs =
     [\<lparr>row_id = 1, row_text = Some ''hello''\<rparr>] @ \<lparr>row_id = 2, row_text = Some []\<rparr> # [] @
     \<lparr>row_id = 3, row_text = Some ''world''\<rparr> # []"
    by (simp add: rows_docs_def)
  have h2: "row_fails w_demo (p_demo ''docs'') ''public.docs'' 3
     (1 + length [\<lparr>row_id = 1, row_text = Some ''hello''\<rparr>]) \<lparr>row_id = 2, row_text = Some []\<rparr>"
    by code_simp
  have h3: "DbExec (Update ''public.docs'' ''vec'' [JInt 1, JInt 2, JInt 3] 3)
     \<in> set (fst (process_rows w_demo (p_demo ''docs'') ''public.docs'' 3 1
                    rows_docs (0, 0)))"
    by code_simp
  from failed_row_does_not_stop_loop[OF h1 h2, where s = 1 and f = 0] h1 h2 h3
  show ?thesis by blast
qed

subsection \<open>The events each part of the job can produce\<close>

lemma take_embedding_events:
  "ev \<in> set (fst (take_embedding result d)) \<Longrightarrow> \<exists>l m. ev = Log l m"
  by (cases "(result, d)" rule: take_embedding.cases)
     (auto split: sum.splits json.splits list.splits)

lemma read_response_events:
  "ev \<in> set (fst (read_response result)) \<Longrightarrow> \<exists>l m. ev = Log l m"
  by (auto simp: read_response_def split: sum.splits if_splits dest: take_embedding_events)

lemma read_response_events_pair:
  "read_response result = (es, r) \<Longrightarrow> ev \<in> set es \<Longrightarrow> \<exists>l m. ev = Log l m"
  using read_response_events[of ev result] by simp

lemma call_vector_service_events:
  "ev \<in> set (fst (call_vector_service cfg post text)) \<Longrightarrow>
     (\<exists>l m. ev = Log l m) \<or> (\<exists>req. ev = HttpPost req)"
  by (auto simp: call_vector_service_def Let_def wrap_generic_def
      split: option.splits if_splits http_outcome.splits prod.splits sum.splits
      dest: read_response_events_pair)

lemma row_events_cases:
  "ev \<in> set (row_events w p ft n idx r) \<Longrightarrow>
     (\<exists>l m. ev = Log l m) \<or> (\<exists>req. ev = HttpPost req) \<or>
     (\<exists>emb. ev = DbExec (Update ft (vector_field_name p) emb (row_id r)))"
  by (auto simp: row_events_eq try_row_def io_simps split: sum.splits if_splits
      dest: call_vector_service_events)

lemma process_rows_events:
  "ev \<in> set (fst (process_rows w p ft n idx rows c)) \<Longrightarrow>
     (\<exists>l m. ev = Log l m) \<or> (\<exists>req. ev = HttpPost req) \<or>
     (\<exists>emb r. r \<in> set rows \<and> ev = DbExec (Update ft (vector_field_name p) emb (row_id r)))"
proof (induction rows arbitrary: idx c)
  case Nil
  then show ?case by simp
next
  case (Cons r rs)
  from Cons.prems have "ev \<in> set (row_events w p ft n idx r) \<or>
      ev \<in> set (fst (process_rows w p ft n (Suc idx) rs (snd (process_row w p ft n idx r c))))"
    by (simp add: Let_def process_row_fst_indep)
  then show ?case
  proof
    assume "ev \<in> set (row_events w p ft n idx r)"
    from row_events_cases[OF this] show ?thesis by auto
  next
    assume "ev \<in> set (fst (process_rows w p ft n (Suc idx) rs (snd (process_row w p ft n idx r c))))"
    from Cons.IH[OF this] show ?thesis by auto
  qed
qed

lemma refresh_table_events:
  "ev \<in> set (fst (refresh_table w p a)) \<Longrightarrow>
     (\<exists>l m. ev = Log l m) \<or> (\<exists>req. ev = HttpPost req) \<or> ev = DbFetchAll \<or> ev = DbCommit \<or>
     ev = DbExec (SelectRows (''public.'' @ a) (text_field_name p)) \<or>
     (\<exists>emb i. ev = DbExec (Update (''public.'' @ a) (vector_field_name p) emb i))"
  by (auto simp: refresh_table_def Let_def fst_fetch_rows refresh_rows_fst io_simps
      split: sum.splits option.splits if_splits dest!: process_rows_events)

lemma refresh_body_events:
  "ev \<in> set (fst (refresh_body w p)) \<Longrightarrow>
     (\<exists>l m. ev = Log l m) \<or> (\<exists>req. ev = HttpPost req) \<or>
     ev = DbRegisterVector \<or> ev = DbCursor \<or> ev = DbFetchOne \<or> ev = DbFetchAll \<or>
     ev = DbCommit \<or> ev = DbExec (SelectMatch (table_name p)) \<or> ev = DbExec SelectAllTables \<or>
     (\<exists>a. fetchone (matching_tables w (table_name p)) = Some a \<and>
          (ev = DbExec (SelectRows (''public.'' @ a) (text_field_name p)) \<or>
           (\<exists>emb i. ev = DbExec (Update (''public.'' @ a) (vector_field_name p) emb i))))"
  by (auto simp: refresh_body_def find_table_def report_tables_def io_simps
      split: sum.splits option.splits if_splits dest!: refresh_table_events)

subsection \<open>The connection is closed once\<close>

lemma refresh_body_no_close: "DbClose \<notin> set (fst (refresh_body w p))"
  using refresh_body_events[of DbClose w p] by auto

lemma handlers_events:
  "fst (handlers w conn r) =
     (case r of
        Inr v \<Rightarrow> []
      | Inl e \<Rightarrow>
          if is_psycopg2_error e then
            (if conn then DbRollback # (case w_fault w CallRollback of
                                          None \<Rightarrow> [Log ERROR (MsgDbFailed (exn_str e))]
                                        | Some e2 \<Rightarrow> [])
             else [Log ERROR (MsgDbFailed (exn_str e))])
          else [Log ERROR (MsgJobError (exn_str e))])"
  by (simp add: handlers_def io_simps split: sum.splits option.splits)

lemma handlers_no_close: "DbClose \<notin> set (fst (handlers w conn r))"
  by (simp add: handlers_events split: sum.splits option.splits)

lemma finally_clause_open:
  "fst (finally_clause w True) =
     DbClose # (case w_fault w CallClose of None \<Rightarrow> [Log INFO MsgClosed] | Some e \<Rightarrow> [])"
  by (simp add: finally_clause_def io_simps split: option.splits)

lemma trace_connected:
  "w_fault w CallConnect = None \<Longrightarrow>
     trace (batch_refresh_embeddings w p) =
       ([Log INFO (MsgConnecting (db_ip p) (db_port p) (db_name p)),
         DbConnect (db_ip p) (db_port p) (db_name p) (db_username p) (db_password p)] @
        fst (refresh_body w p) @ fst (handlers w True (snd (refresh_body w p)))) @
       fst (finally_clause w True)"
  by (simp add: batch_refresh_embeddings_def try_block_def Let_def)

text \<open>
Claim C3. Whenever \<open>psycopg2.connect\<close> returned, the trace of the job holds the
  close of the connection exactly once, whatever the driver calls, the embedding service
  and the handlers did before; after it comes nothing but the line saying that the
  connection is closed (and not even that line when the close itself raised).
\<close>

theorem connection_closed_exactly_once:
  assumes "w_fault w CallConnect = None"
  shows "\<exists>before after.
           trace (batch_refresh_embeddings w p) = before @ DbClose # after \<and>
           DbClose \<notin> set before \<and>
           after = (case w_fault w CallClose of None \<Rightarrow> [Log INFO MsgClosed] | Some e \<Rightarrow> []) \<and>
           length (filter (\<lambda>ev. ev = DbClose) (trace (batch_refresh_embeddings w p))) = 1"
proof -
  let ?before = "[Log INFO (MsgConnecting (db_ip p) (db_port p) (db_name p)),
         DbConnect (db_ip p) (db_port p) (db_name p) (db_username p) (db_password p)] @
        fst (refresh_body w p) @ fst (handlers w True (snd (refresh_body w p)))"
  let ?after = "case w_fault w CallClose of None \<Rightarrow> [Log INFO MsgClosed] | Some e \<Rightarrow> []"
  have t: "trace (batch_refresh_embeddings w p) = ?before @ DbClose # ?after"
    using trace_connected[OF assms] by (simp add: finally_clause_open)
  have b: "DbClose \<notin> set ?before"
    using refresh_body_no_close[of w p] handlers_no_close[of w True "snd (refresh_body w p)"]
    by simp
  have a: "DbClose \<notin> set ?after"
    by (simp split: option.splits)
  have "filter (\<lambda>ev. ev = DbClose) (?before @ DbClose # ?after) = [DbClose]"
    using b a by (auto simp: filter_empty_conv)
  then have "length (filter (\<lambda>ev. ev = DbClose) (trace (batch_refresh_embeddings w p))) = 1"
    using t by simp
  with t b show ?thesis by blast
qed

theorem connection_closed_exactly_once_witness:
  "w_fault w_demo CallConnect = None \<and>
   length (filter (\<lambda>ev. ev = DbClose) (trace (batch_refresh_embeddings w_demo (p_demo ''Docs'')))) = 1"
proof -
  have h: "w_fault w_demo CallConnect = None"
    by (simp add: w_demo_def)
  from connection_closed_exactly_once[OF h, of "p_demo ''Docs''"] h
  show ?thesis by blast
qed

subsection \<open>A table without rows\<close>

lemma fetch_rows_ok:
  assumes "w_fault w CallExecSelect = None" and "w_fault w CallFetchAllRows = None"
    and "addressed w ft = Some relation"
    and "w_rows w relation (text_field_name p) = Some rows"
  shows "fetch_rows w p ft =
     ([DbExec (SelectRows ft (text_field_name p)), DbFetchAll, Log INFO (MsgFound (length rows))],
      Inr rows)"
  using assms
  by (simp add: fetch_rows_def exec_select_def and_then_def attempt_def say_def give_def)

lemma find_table_ok:
  "w_fault w CallExecMatch = None \<Longrightarrow> w_fault w CallFetchOne = None \<Longrightarrow>
   find_table w p =
     ([DbExec (SelectMatch (table_name p)), DbFetchOne],
      Inr (fetchone (matching_tables w (table_name p))))"
  by (simp add: find_table_def and_then_def attempt_def)

lemma refresh_body_found:
  assumes "fetch_runs w"
    and "fetchone (matching_tables w (table_name p)) = Some a"
    and "addressed w (''public.'' @ a) = Some relation"
    and "w_rows w relation (text_field_name p) = Some rows"
  shows "refresh_body w p =
     ([DbRegisterVector, DbCursor, DbExec (SelectMatch (table_name p)), DbFetchOne,
       Log INFO (MsgMatched (''public.'' @ a)),
       DbExec (SelectRows (''public.'' @ a) (text_field_name p)), DbFetchAll,
       Log INFO (MsgFound (length rows))] @
      (if rows = [] then [Log INFO MsgNothing]
       else fst (refresh_rows w p (''public.'' @ a) rows)),
      if rows = [] then Inr NoRecords
      else snd (refresh_rows w p (''public.'' @ a) rows))"
proof -
  from assms(1) have f: "w_fault w CallRegisterVector = None" "w_fault w CallCursor = None"
    "w_fault w CallExecMatch = None" "w_fault w CallFetchOne = None"
    "w_fault w CallExecSelect = None" "w_fault w CallFetchAllRows = None"
    by (simp_all add: fetch_runs_def lookup_runs_def)
  show ?thesis
    using assms(2)
    by (simp add: refresh_body_def refresh_table_def find_table_ok[OF f(3,4)]
        fetch_rows_ok[OF f(5,6) assms(3,4), simplified] f and_then_def attempt_def say_def
        give_def Let_def)
qed

text \<open>
  Claim C4, as amended. When the fetch returns no row, the job logs that there is
  nothing to update and returns at line 154: the trace is exactly the one below, with no
  commit and no tally line; the connection is closed and the closing line is logged.
\<close>

theorem no_rows_returns_before_commit:
  assumes "fetch_runs w"
    and "fetchone (matching_tables w (table_name p)) = Some actual"
    and "addressed w (''public.'' @ actual) = Some relation"
    and "w_rows w relation (text_field_name p) = Some []"
  shows "trace (batch_refresh_embeddings w p) =
           [Log INFO (MsgConnecting (db_ip p) (db_port p) (db_name p)),
            DbConnect (db_ip p) (db_port p) (db_name p) (db_username p) (db_password p),
            DbRegisterVector, DbCursor, DbExec (SelectMatch (table_name p)), DbFetchOne,
            Log INFO (MsgMatched (''public.'' @ actual)),
            DbExec (SelectRows (''public.'' @ actual) (text_field_name p)), DbFetchAll,
            Log INFO (MsgFound 0), Log INFO MsgNothing, DbClose] @
           (case w_fault w CallClose of None \<Rightarrow> [Log INFO MsgClosed] | Some e \<Rightarrow> []) \<and>
         outcome (batch_refresh_embeddings w p) = Some NoRecords \<and>
         raised (batch_refresh_embeddings w p) = w_fault w CallClose"
proof -
  from assms(1) have c: "w_fault w CallConnect = None"
    by (simp add: fetch_runs_def lookup_runs_def)
  show ?thesis
    by (simp add: batch_refresh_embeddings_def try_block_def Let_def c
        refresh_body_found[OF assms] handlers_def finally_clause_def
        and_then_def attempt_def say_def give_def split: option.splits)
qed

theorem no_rows_returns_before_commit_witness:
  "fetch_runs w_demo \<and>
   fetchone (matching_tables w_demo (table_name (p_demo ''Users''))) = Some ''users'' \<and>
   addressed w_demo (''public.'' @ ''users'') = Some ''public.users'' \<and>
   w_rows w_demo ''public.users'' (text_field_name (p_demo ''Users'')) = Some [] \<and>
   outcome (batch_refresh_embeddings w_demo (p_demo ''Users'')) = Some NoRecords"
proof -
  have h1: "fetch_runs w_demo"
    by (simp add: fetch_runs_def lookup_runs_def w_demo_def)
  have h2: "fetchone (matching_tables w_demo (table_name (p_demo ''Users''))) = Some ''users''"
    by code_simp
  have h3: "addressed w_demo (''public.'' @ ''users'') = Some ''public.users''"
    by code_simp
  have h4: "w_rows w_demo ''public.users'' (text_field_name (p_demo ''Users'')) = Some []"
    by code_simp
  from no_rows_returns_before_commit[OF h1 h2 h3 h4] h1 h2 h3 h4
  show ?thesis by blast
qed

text \<open>
  Claim C4 as stated asks for a commit and a tally line on a table without rows. On the
  example schema the table \<open>users\<close> has no rows, and the trace of the job holds neither.
\<close>

theorem no_rows_commit_counterexample:
  "w_rows w_demo ''public.users'' ''body'' = Some [] \<and>
   Log INFO MsgNothing \<in> set (trace (batch_refresh_embeddings w_demo (p_demo ''Users''))) \<and>
   DbCommit \<notin> set (trace (batch_refresh_embeddings w_demo (p_demo ''Users''))) \<and>
   Log INFO (MsgDone 0 0) \<notin> set (trace (batch_refresh_embeddings w_demo (p_demo ''Users''))) \<and>
   trace (batch_refresh_embeddings w_demo (p_demo ''Users'')) =
     [Log INFO (MsgConnecting ''h'' 5432 ''db''),
      DbConnect ''h'' 5432 ''db'' ''u'' ''pw'', DbRegisterVector, DbCursor,
      DbExec (SelectMatch ''Users''), DbFetchOne,
      Log INFO (MsgMatched ''public.users''),
      DbExec (SelectRows ''public.users'' ''body''), DbFetchAll,
      Log INFO (MsgFound 0), Log INFO MsgNothing, DbClose,
      Log INFO MsgClosed]"
proof -
  have t: "trace (batch_refresh_embeddings w_demo (p_demo ''Users'')) =
     [Log INFO (MsgConnecting ''h'' 5432 ''db''),
      DbConnect ''h'' 5432 ''db'' ''u'' ''pw'', DbRegisterVector, DbCursor,
      DbExec (SelectMatch ''Users''), DbFetchOne,
      Log INFO (MsgMatched ''public.users''),
      DbExec (SelectRows ''public.users'' ''body''), DbFetchAll,
      Log INFO (MsgFound 0), Log INFO MsgNothing, DbClose,
      Log INFO MsgClosed]"
    by code_simp
  have r: "w_rows w_demo ''public.users'' ''body'' = Some []"
    by code_simp
  show ?thesis
    unfolding t using r by simp
qed

subsection \<open>The events of a whole job\<close>

lemma finally_clause_events:
  "ev \<in> set (fst (finally_clause w conn)) \<Longrightarrow> ev = DbClose \<or> ev = Log INFO MsgClosed"
  by (cases conn) (auto simp: finally_clause_def io_simps split: option.splits)

lemma handlers_events_cases:
  "ev \<in> set (fst (handlers w conn r)) \<Longrightarrow> ev = DbRollback \<or> (\<exists>l m. ev = Log l m)"
  by (auto simp: handlers_events split: sum.splits if_splits option.splits)

lemma try_block_events:
  "ev \<in> set (fst (snd (try_block w p))) \<Longrightarrow>
     ev = Log INFO (MsgConnecting (db_ip p) (db_port p) (db_name p)) \<or>
     ev = DbConnect (db_ip p) (db_port p) (db_name p) (db_username p) (db_password p) \<or>
     ev \<in> set (fst (refresh_body w p))"
  by (cases "w_fault w CallConnect") (auto simp: try_block_def Let_def)

lemma trace_events:
  assumes "ev \<in> set (trace (batch_refresh_embeddings w p))"
  shows "(\<exists>l m. ev = Log l m) \<or>
     ev = DbConnect (db_ip p) (db_port p) (db_name p) (db_username p) (db_password p) \<or>
     ev = DbRollback \<or> ev = DbClose \<or> ev \<in> set (fst (refresh_body w p))"
proof -
  from assms have "ev \<in> set (fst (snd (try_block w p))) \<or>
      ev \<in> set (fst (handlers w (fst (try_block w p)) (snd (snd (try_block w p))))) \<or>
      ev \<in> set (fst (finally_clause w (fst (try_block w p))))"
    by (simp add: batch_refresh_embeddings_def Let_def)
  then show ?thesis
    using try_block_events[of ev w p] handlers_events_cases[of ev w] finally_clause_events[of ev w]
    by blast
qed

subsection \<open>Table resolution\<close>

text \<open>
  Claim C5. The lookup returns the stored name, but lines 145 and 166 send it without
  quotes, so the server addresses the relation of the folded name. On a server whose
  only table is stored as \<open>Docs\<close>, the request \<open>docs\<close> resolves to \<open>Docs\<close> and the path
  \<open>public.Docs\<close>; the select statement built from it addresses \<open>public.docs\<close>, which
  does not exist: the execute raises, the job rolls back and ends without an update.
  The lookup itself compares two \<open>lower\<close>s computed under different collations: on the
  example server a table stored under the one-letter name of code 192 (capital A with
  grave accent) is not found when it is requested under that very name. The last
  conjuncts before it show the folding on the letters A and Z and their neighbours, and
  two names that are not plain identifiers, which this server rejects.
\<close>

theorem resolved_name_is_sent_unquoted:
  "fetchone (matching_tables w_mixed (table_name (p_demo ''docs''))) = Some ''Docs'' \<and>
   addressed w_mixed (''public.'' @ ''Docs'') = Some ''public.docs'' \<and>
   w_rows w_mixed ''public.Docs'' ''body'' = Some rows_docs \<and>
   w_rows w_mixed ''public.docs'' ''body'' = None \<and>
   trace (batch_refresh_embeddings w_mixed (p_demo ''docs'')) =
     [Log INFO (MsgConnecting ''h'' 5432 ''db''),
      DbConnect ''h'' 5432 ''db'' ''u'' ''pw'', DbRegisterVector, DbCursor,
      DbExec (SelectMatch ''docs''), DbFetchOne,
      Log INFO (MsgMatched ''public.Docs''),
      DbExec (SelectRows ''public.Docs'' ''body''),
      DbRollback, Log ERROR (MsgDbFailed msg_undefined), DbClose, Log INFO MsgClosed] \<and>
   outcome (batch_refresh_embeddings w_mixed (p_demo ''docs'')) = None \<and>
   filter is_update (trace (batch_refresh_embeddings w_mixed (p_demo ''docs''))) = [] \<and>
   addressed w_mixed ''public.AZ_az09$'' = Some ''public.az_az09$'' \<and>
   map lower_char ''@AZ['' = ''@az['' \<and>
   addressed w_mixed ''public.my table'' = None \<and>
   addressed w_mixed ''public.9lives'' = None \<and>
   fetchone (matching_tables
     (w_demo\<lparr>w_catalog := [\<lparr>t_schema = ''public'', t_name = [CHR 0xC0], t_type = ''BASE TABLE''\<rparr>]\<rparr>)
     [CHR 0xC0]) = None"
proof -
  have a: "fetchone (matching_tables w_mixed (table_name (p_demo ''docs''))) = Some ''Docs''"
    by code_simp
  have b: "addressed w_mixed (''public.'' @ ''Docs'') = Some ''public.docs''"
    by code_simp
  have c: "w_rows w_mixed ''public.Docs'' ''body'' = Some rows_docs"
    by code_simp
  have d: "w_rows w_mixed ''public.docs'' ''body'' = None"
    by code_simp
  have e: "trace (batch_refresh_embeddings w_mixed (p_demo ''docs'')) =
     [Log INFO (MsgConnecting ''h'' 5432 ''db''),
      DbConnect ''h'' 5432 ''db'' ''u'' ''pw'', DbRegisterVector, DbCursor,
      DbExec (SelectMatch ''docs''), DbFetchOne,
      Log INFO (MsgMatched ''public.Docs''),
      DbExec (SelectRows ''public.Docs'' ''body''),
      DbRollback, Log ERROR (MsgDbFailed msg_undefined), DbClose, Log INFO MsgClosed]"
    by code_simp
  have f: "outcome (batch_refresh_embeddings w_mixed (p_demo ''docs'')) = None"
    by code_simp
  have g: "fetchone (matching_tables
     (w_demo\<lparr>w_catalog := [\<lparr>t_schema = ''public'', t_name = [CHR 0xC0], t_type = ''BASE TABLE''\<rparr>]\<rparr>)
     [CHR 0xC0]) = None"
    by code_simp
  have u: "filter is_update (trace (batch_refresh_embeddings w_mixed (p_demo ''docs''))) = []"
    unfolding e by simp
  have i1: "addressed w_mixed ''public.AZ_az09$'' = Some ''public.az_az09$''"
    by code_simp
  have i2: "map lower_char ''@AZ['' = ''@az[''"
    by code_simp
  have i3: "addressed w_mixed ''public.my table'' = None"
    by code_simp
  have i4: "addressed w_mixed ''public.9lives'' = None"
    by code_simp
  from a b c d e f u i1 i2 i3 i4 g show ?thesis by (intro conjI)
qed

subsection \<open>A table that is not found\<close>

lemma report_tables_ok:
  "w_fault w CallExecAllTables = None \<Longrightarrow> w_fault w CallFetchAllTables = None \<Longrightarrow>
   report_tables w p =
     ([Log ERROR (MsgNoMatch (table_name p)), DbExec SelectAllTables, DbFetchAll,
       if sort (base_tables (w_catalog w)) \<noteq> []
       then Log ERROR (MsgAllTables (db_name p) (join_names (sort (base_tables (w_catalog w)))))
       else Log ERROR (MsgNoTables (db_name p))],
      Inr ())"
  by (simp add: report_tables_def and_then_def attempt_def say_def)

lemma refresh_body_not_found:
  assumes "lookup_runs w"
    and "matching_tables w (table_name p) = []"
    and "w_fault w CallExecAllTables = None" and "w_fault w CallFetchAllTables = None"
  shows "refresh_body w p =
     ([DbRegisterVector, DbCursor, DbExec (SelectMatch (table_name p)), DbFetchOne,
       Log ERROR (MsgNoMatch (table_name p)), DbExec SelectAllTables, DbFetchAll,
       if sort (base_tables (w_catalog w)) \<noteq> []
       then Log ERROR (MsgAllTables (db_name p) (join_names (sort (base_tables (w_catalog w)))))
       else Log ERROR (MsgNoTables (db_name p))],
      Inr TableNotFound)"
proof -
  from assms(1) have f: "w_fault w CallRegisterVector = None" "w_fault w CallCursor = None"
    "w_fault w CallExecMatch = None" "w_fault w CallFetchOne = None"
    by (simp_all add: lookup_runs_def)
  show ?thesis
    by (simp add: refresh_body_def find_table_ok[OF f(3,4)] report_tables_ok[OF assms(3,4)]
        assms(2) fetchone_def f and_then_def attempt_def give_def)
qed

lemma no_match_no_update:
  assumes "matching_tables w (table_name p) = []"
    and "ev \<in> set (trace (batch_refresh_embeddings w p))"
  shows "\<not> is_update ev"
proof
  assume u: "is_update ev"
  then obtain t c v i where e: "ev = DbExec (Update t c v i)"
    by (cases ev rule: is_update.cases) simp_all
  with trace_events[OF assms(2)] have "ev \<in> set (fst (refresh_body w p))"
    by simp
  from refresh_body_events[OF this] e assms(1) show False
    by (auto simp: fetchone_def)
qed

lemma matching_tables_by_catalog:
  "matching_tables w req =
     map t_name
       (filter (\<lambda>e. t_schema e = ''public'' \<and> t_type e = ''BASE TABLE'' \<and>
                     w_lower_name w (t_name e) = w_lower_param w req) (w_catalog w))"
  unfolding matching_tables_def base_tables_def filter_map o_def filter_filter
  by (rule arg_cong[where f = "map t_name"], rule filter_cong) auto

text \<open>
  Claim C6. Let no line of the catalog be a base table of schema \<open>public\<close> whose name,
  lowered by the server, equals the lowered request. Then the job sends no update
  statement, whatever else happens. When in addition the driver calls up to the listing
  succeed, the trace is exactly the one below: the job logs the names of the lines of
  the catalog that are base tables of schema \<open>public\<close>, sorted and joined by commas, or,
  when there is no such line, a different message; it returns at line 137 and closes
  the connection; the only exception that can leave the job is one raised by the close.
  The names listed are exactly the names of the base tables of schema \<open>public\<close>: views
  and the tables of other schemas are left out.
\<close>

theorem table_not_found_is_noop:
  assumes "filter (\<lambda>e. t_schema e = ''public'' \<and> t_type e = ''BASE TABLE'' \<and>
                        w_lower_name w (t_name e) = w_lower_param w (table_name p))
             (w_catalog w) = []"
  shows "(\<forall>ev \<in> set (trace (batch_refresh_embeddings w p)). \<not> is_update ev) \<and>
         (lookup_runs w \<and> w_fault w CallExecAllTables = None \<and>
          w_fault w CallFetchAllTables = None \<longrightarrow>
            trace (batch_refresh_embeddings w p) =
              [Log INFO (MsgConnecting (db_ip p) (db_port p) (db_name p)),
               DbConnect (db_ip p) (db_port p) (db_name p) (db_username p) (db_password p),
               DbRegisterVector, DbCursor, DbExec (SelectMatch (table_name p)), DbFetchOne,
               Log ERROR (MsgNoMatch (table_name p)), DbExec SelectAllTables, DbFetchAll,
               if filter (\<lambda>e. t_schema e = ''public'' \<and> t_type e = ''BASE TABLE'') (w_catalog w) \<noteq> []
               then Log ERROR (MsgAllTables (db_name p)
                      (join_names (sort (map t_name
                         (filter (\<lambda>e. t_schema e = ''public'' \<and> t_type e = ''BASE TABLE'')
                            (w_catalog w))))))
               else Log ERROR (MsgNoTables (db_name p)),
               DbClose] @
              (case w_fault w CallClose of None \<Rightarrow> [Log INFO MsgClosed] | Some e \<Rightarrow> []) \<and>
            outcome (batch_refresh_embeddings w p) = Some TableNotFound \<and>
            raised (batch_refresh_embeddings w p) = w_fault w CallClose) \<and>
         set (sort (map t_name
                (filter (\<lambda>e. t_schema e = ''public'' \<and> t_type e = ''BASE TABLE'') (w_catalog w))))
           = {n. \<exists>e \<in> set (w_catalog w).
                   t_schema e = ''public'' \<and> t_type e = ''BASE TABLE'' \<and> t_name e = n} \<and>
         sorted (sort (map t_name
                (filter (\<lambda>e. t_schema e = ''public'' \<and> t_type e = ''BASE TABLE'') (w_catalog w))))"
proof (intro conjI impI ballI)
  from assms have m: "matching_tables w (table_name p) = []"
    by (simp add: matching_tables_by_catalog)
  {
    fix ev assume "ev \<in> set (trace (batch_refresh_embeddings w p))"
    with m show "\<not> is_update ev" by (rule no_match_no_update)
  }
  assume a: "lookup_runs w \<and> w_fault w CallExecAllTables = None \<and>
          w_fault w CallFetchAllTables = None"
  then have c: "w_fault w CallConnect = None" by (simp add: lookup_runs_def)
  have b: "refresh_body w p =
     ([DbRegisterVector, DbCursor, DbExec (SelectMatch (table_name p)), DbFetchOne,
       Log ERROR (MsgNoMatch (table_name p)), DbExec SelectAllTables, DbFetchAll,
       if sort (base_tables (w_catalog w)) \<noteq> []
       then Log ERROR (MsgAllTables (db_name p) (join_names (sort (base_tables (w_catalog w)))))
       else Log ERROR (MsgNoTables (db_name p))],
      Inr TableNotFound)"
    using a m by (intro refresh_body_not_found) simp_all
  have s: "(sort (base_tables (w_catalog w)) \<noteq> []) =
           (filter (\<lambda>e. t_schema e = ''public'' \<and> t_type e = ''BASE TABLE'') (w_catalog w) \<noteq> [])"
  proof -
    have "(sort (base_tables (w_catalog w)) = []) = (base_tables (w_catalog w) = [])"
      by (metis set_empty set_sort)
    then show ?thesis by (simp add: base_tables_def)
  qed
  show "trace (batch_refresh_embeddings w p) =
              [Log INFO (MsgConnecting (db_ip p) (db_port p) (db_name p)),
               DbConnect (db_ip p) (db_port p) (db_name p) (db_username p) (db_password p),
               DbRegisterVector, DbCursor, DbExec (SelectMatch (table_name p)), DbFetchOne,
               Log ERROR (MsgNoMatch (table_name p)), DbExec SelectAllTables, DbFetchAll,
               if filter (\<lambda>e. t_schema e = ''public'' \<and> t_type e = ''BASE TABLE'') (w_catalog w) \<noteq> []
               then Log ERROR (MsgAllTables (db_name p)
                      (join_names (sort (map t_name
                         (filter (\<lambda>e. t_schema e = ''public'' \<and> t_type e = ''BASE TABLE'')
                            (w_catalog w))))))
               else Log ERROR (MsgNoTables (db_name p)),
               DbClose] @
              (case w_fault w CallClose of None \<Rightarrow> [Log INFO MsgClosed] | Some e \<Rightarrow> [])"
    by (simp add: trace_connected[OF c] b s handlers_events finally_clause_open)
       (simp add: base_tables_def)
  show "outcome (batch_refresh_embeddings w p) = Some TableNotFound"
    by (simp add: batch_refresh_embeddings_def try_block_def Let_def c b)
  show "raised (batch_refresh_embeddings w p) = w_fault w CallClose"
    by (simp add: batch_refresh_embeddings_def try_block_def Let_def c b handlers_def
        finally_clause_def io_simps split: option.splits)
next
  show "set (sort (map t_name
                (filter (\<lambda>e. t_schema e = ''public'' \<and> t_type e = ''BASE TABLE'') (w_catalog w))))
           = {n. \<exists>e \<in> set (w_catalog w).
                   t_schema e = ''public'' \<and> t_type e = ''BASE TABLE'' \<and> t_name e = n}"
    by auto
next
  show "sorted (sort (map t_name
                (filter (\<lambda>e. t_schema e = ''public'' \<and> t_type e = ''BASE TABLE'') (w_catalog w))))"
    by simp
qed

theorem table_not_found_is_noop_witness:
  "filter (\<lambda>e. t_schema e = ''public'' \<and> t_type e = ''BASE TABLE'' \<and>
                w_lower_name w_demo (t_name e) = w_lower_param w_demo (table_name (p_demo ''Missing'')))
     (w_catalog w_demo) = [] \<and>
   (lookup_runs w_demo \<and> w_fault w_demo CallExecAllTables = None \<and>
    w_fault w_demo CallFetchAllTables = None) \<and>
   map t_name (filter (\<lambda>e. w_lower_name w_demo (t_name e) = w_lower_param w_demo ''Missing'')
     (w_catalog w_demo)) = [''missing'', ''missing''] \<and>
   Log ERROR (MsgAllTables ''db'' ''docs, notes, users'')
     \<in> set (trace (batch_refresh_embeddings w_demo (p_demo ''Missing''))) \<and>
   filter is_update (trace (batch_refresh_embeddings w_demo (p_demo ''Missing''))) = [] \<and>
   outcome (batch_refresh_embeddings w_demo (p_demo ''Missing'')) = Some TableNotFound \<and>
   raised (batch_refresh_embeddings w_demo (p_demo ''Missing'')) = None"
proof -
  have h: "filter (\<lambda>e. t_schema e = ''public'' \<and> t_type e = ''BASE TABLE'' \<and>
                w_lower_name w_demo (t_name e) = w_lower_param w_demo (table_name (p_demo ''Missing'')))
     (w_catalog w_demo) = []"
    by code_simp
  have r: "lookup_runs w_demo \<and> w_fault w_demo CallExecAllTables = None \<and>
    w_fault w_demo CallFetchAllTables = None"
    by (simp add: lookup_runs_def w_demo_def)
  have v: "map t_name (filter (\<lambda>e. w_lower_name w_demo (t_name e) = w_lower_param w_demo ''Missing'')
     (w_catalog w_demo)) = [''missing'', ''missing'']"
    by code_simp
  have c: "w_fault w_demo CallClose = None"
    by (simp add: w_demo_def)
  have n: "filter (\<lambda>e. t_schema e = ''public'' \<and> t_type e = ''BASE TABLE'') (w_catalog w_demo) \<noteq> []"
    by code_simp
  have j: "join_names (sort (map t_name
             (filter (\<lambda>e. t_schema e = ''public'' \<and> t_type e = ''BASE TABLE'') (w_catalog w_demo))))
           = ''docs, notes, users''"
    by code_simp
  have d: "db_name (p_demo ''Missing'') = ''db''"
    by (simp add: p_demo_def)
  note t = table_not_found_is_noop[OF h]
  from t have "\<forall>ev \<in> set (trace (batch_refresh_embeddings w_demo (p_demo ''Missing''))). \<not> is_update ev"
    by (rule conjunct1)
  then have u: "filter is_update (trace (batch_refresh_embeddings w_demo (p_demo ''Missing''))) = []"
    unfolding filter_empty_conv by blast
  note t2 = t[THEN conjunct2, THEN conjunct1, rule_format, OF r]
  note tr = t2[THEN conjunct1]
  note o = t2[THEN conjunct2, THEN conjunct1]
  note ra = t2[THEN conjunct2, THEN conjunct2]
  have l: "Log ERROR (MsgAllTables ''db'' ''docs, notes, users'')
     \<in> set (trace (batch_refresh_embeddings w_demo (p_demo ''Missing'')))"
    unfolding tr by (simp only: n j d if_True) simp
  from ra c have ra2: "raised (batch_refresh_embeddings w_demo (p_demo ''Missing'')) = None"
    by simp
  from h r[THEN conjunct1] r[THEN conjunct2, THEN conjunct1] r[THEN conjunct2, THEN conjunct2]
    v l u o ra2
  show ?thesis by (intro conjI)
qed

subsection \<open>Missing configuration\<close>

lemma call_vector_service_unconfigured:
  "\<not> all_configured cfg \<Longrightarrow>
   call_vector_service cfg post text =
     ([Log ERROR MsgConfigIncomplete], Inl (ValueError msg_config_missing))"
  by (auto simp: call_vector_service_def all_configured_def split: option.splits)

lemma process_row_unconfigured:
  "\<not> all_configured (w_config w) \<Longrightarrow>
   process_row w p ft n idx r c =
     ([Log ERROR MsgConfigIncomplete, Log ERROR (MsgRowFailed idx (row_id r) msg_config_missing)],
      (fst c, Suc (snd c)))"
  by (simp add: process_row_def try_row_def call_vector_service_unconfigured and_then_def)

lemma process_rows_unconfigured:
  "\<not> all_configured (w_config w) \<Longrightarrow>
   process_rows w p ft n idx rows c =
     (concat (map (\<lambda>(i, r). [Log ERROR MsgConfigIncomplete,
                              Log ERROR (MsgRowFailed i (row_id r) msg_config_missing)])
                  (enumerate idx rows)),
      (fst c, snd c + length rows))"
  by (induction rows arbitrary: idx c) (simp_all add: Let_def process_row_unconfigured)

lemma row_events_http:
  "HttpPost req \<in> set (row_events w p ft n idx r) \<Longrightarrow>
     HttpPost req \<in> set (fst (call_vector_service (w_config w) (w_post w idx) (row_text r)))"
  by (auto simp: row_events_eq try_row_def io_simps split: sum.splits if_splits option.splits)

lemma process_rows_http:
  "HttpPost req \<in> set (fst (process_rows w p ft n idx rows c)) \<Longrightarrow>
     \<exists>i (r::row). HttpPost req \<in> set (fst (call_vector_service (w_config w) (w_post w i) (row_text r)))"
proof (induction rows arbitrary: idx c)
  case Nil
  then show ?case by simp
next
  case (Cons r rs)
  from Cons.prems have "HttpPost req \<in> set (row_events w p ft n idx r) \<or>
      HttpPost req \<in> set (fst (process_rows w p ft n (Suc idx) rs (snd (process_row w p ft n idx r c))))"
    by (simp add: Let_def process_row_fst_indep)
  then show ?case
  proof
    assume "HttpPost req \<in> set (row_events w p ft n idx r)"
    from row_events_http[OF this] show ?thesis by (intro exI)
  next
    assume "HttpPost req \<in> set (fst (process_rows w p ft n (Suc idx) rs (snd (process_row w p ft n idx r c))))"
    then show ?thesis by (rule Cons.IH)
  qed
qed

lemma refresh_table_http:
  "HttpPost req \<in> set (fst (refresh_table w p a)) \<Longrightarrow>
     \<exists>i (r::row). HttpPost req \<in> set (fst (call_vector_service (w_config w) (w_post w i) (row_text r)))"
  by (auto simp: refresh_table_def Let_def fst_fetch_rows refresh_rows_fst io_simps
      split: sum.splits option.splits if_splits dest!: process_rows_http)

lemma refresh_body_http:
  "HttpPost req \<in> set (fst (refresh_body w p)) \<Longrightarrow>
     \<exists>i (r::row). HttpPost req \<in> set (fst (call_vector_service (w_config w) (w_post w i) (row_text r)))"
  by (auto simp: refresh_body_def find_table_def report_tables_def io_simps
      split: sum.splits option.splits if_splits dest!: refresh_table_http)

lemma trace_http:
  assumes "HttpPost req \<in> set (trace (batch_refresh_embeddings w p))"
  shows "\<exists>i (r::row). HttpPost req \<in> set (fst (call_vector_service (w_config w) (w_post w i) (row_text r)))"
proof -
  from trace_events[OF assms] have "HttpPost req \<in> set (fst (refresh_body w p))" by simp
  then show ?thesis by (rule refresh_body_http)
qed

text \<open>
Claim C7. When the service URL, the model or the account is absent (or empty), every
  call of the embedding client raises the configuration error at once, logging one line
  and sending nothing. In the loop every row then takes the handler: its failure line
  carries that error, the success counter stays and the failure counter grows by the
  number of rows. No request is sent during the whole job, and a job over a non-empty
  table whose driver calls succeed returns with 0 successes and as many failures as rows.
  (A table without rows makes the job return at line 154, before the counters exist.)
\<close>

theorem missing_configuration_fails_every_row:
  assumes "\<not> all_configured (w_config w)"
  shows "call_vector_service (w_config w) post text =
           ([Log ERROR MsgConfigIncomplete], Inl (ValueError msg_config_missing)) \<and>
         process_rows w p ft n idx rows (s, f) =
           (concat (map (\<lambda>(i, r). [Log ERROR MsgConfigIncomplete,
                                    Log ERROR (MsgRowFailed i (row_id r) msg_config_missing)])
                        (enumerate idx rows)),
            (s, f + length rows)) \<and>
         (\<forall>ev \<in> set (trace (batch_refresh_embeddings w p)). \<not> is_http_post ev) \<and>
         (fetch_runs w \<and> w_fault w CallCommit = None \<and>
          fetchone (matching_tables w (table_name p)) = Some actual \<and>
          addressed w (''public.'' @ actual) = Some relation \<and>
          w_rows w relation (text_field_name p) = Some fetched \<and> fetched \<noteq> [] \<longrightarrow>
            outcome (batch_refresh_embeddings w p) = Some (Refreshed 0 (length fetched)))"
proof (intro conjI ballI impI)
  show "call_vector_service (w_config w) post text =
           ([Log ERROR MsgConfigIncomplete], Inl (ValueError msg_config_missing))"
    using assms by (rule call_vector_service_unconfigured)
next
  show "process_rows w p ft n idx rows (s, f) =
           (concat (map (\<lambda>(i, r). [Log ERROR MsgConfigIncomplete,
                                    Log ERROR (MsgRowFailed i (row_id r) msg_config_missing)])
                        (enumerate idx rows)),
            (s, f + length rows))"
    using process_rows_unconfigured[OF assms, of p ft n idx rows "(s, f)"] by simp
next
  fix ev assume e: "ev \<in> set (trace (batch_refresh_embeddings w p))"
  show "\<not> is_http_post ev"
  proof
    assume "is_http_post ev"
    then obtain req where "ev = HttpPost req"
      by (cases ev) simp_all
    with e have "HttpPost req \<in> set (trace (batch_refresh_embeddings w p))"
      by simp
    from trace_http[OF this] obtain i and r :: row where
      "HttpPost req \<in> set (fst (call_vector_service (w_config w) (w_post w i) (row_text r)))"
      by auto
    then show False
      by (simp add: call_vector_service_unconfigured[OF assms])
  qed
next
  assume a: "fetch_runs w \<and> w_fault w CallCommit = None \<and>
          fetchone (matching_tables w (table_name p)) = Some actual \<and>
          addressed w (''public.'' @ actual) = Some relation \<and>
          w_rows w relation (text_field_name p) = Some fetched \<and> fetched \<noteq> []"
  then have c: "w_fault w CallConnect = None"
    by (simp add: fetch_runs_def lookup_runs_def)
  from a have r: "fetch_runs w" "fetchone (matching_tables w (table_name p)) = Some actual"
    "addressed w (''public.'' @ actual) = Some relation"
    "w_rows w relation (text_field_name p) = Some fetched"
    by simp_all
  from a have b: "snd (refresh_body w p) = snd (refresh_rows w p (''public.'' @ actual) fetched)"
    by (simp add: refresh_body_found[OF r])
  from a have "snd (refresh_body w p) = Inr (Refreshed 0 (length fetched))"
    unfolding b by (simp add: refresh_rows_snd process_rows_unconfigured[OF assms])
  then show "outcome (batch_refresh_embeddings w p) = Some (Refreshed 0 (length fetched))"
    by (simp add: batch_refresh_embeddings_def try_block_def Let_def c)
qed

theorem missing_configuration_fails_every_row_witness:
  "\<not> all_configured (w_config (w_demo\<lparr>w_config := cfg_url_only\<rparr>)) \<and>
   (fetch_runs (w_demo\<lparr>w_config := cfg_url_only\<rparr>) \<and>
    w_fault (w_demo\<lparr>w_config := cfg_url_only\<rparr>) CallCommit = None \<and>
    fetchone (matching_tables (w_demo\<lparr>w_config := cfg_url_only\<rparr>)
               (table_name (p_demo ''docs''))) = Some ''docs'' \<and>
    addressed (w_demo\<lparr>w_config := cfg_url_only\<rparr>) (''public.'' @ ''docs'') = Some ''public.docs'' \<and>
    w_rows (w_demo\<lparr>w_config := cfg_url_only\<rparr>) ''public.docs''
      (text_field_name (p_demo ''docs'')) = Some rows_docs \<and> rows_docs \<noteq> []) \<and>
   length rows_docs = 3 \<and>
   outcome (batch_refresh_embeddings (w_demo\<lparr>w_config := cfg_url_only\<rparr>) (p_demo ''docs''))
     = Some (Refreshed 0 3) \<and>
   filter is_http_post
     (trace (batch_refresh_embeddings (w_demo\<lparr>w_config := cfg_url_only\<rparr>) (p_demo ''docs''))) = []"
proof -
  let ?w = "w_demo\<lparr>w_config := cfg_url_only\<rparr>"
  have h: "\<not> all_configured (w_config ?w)"
    by code_simp
  have r: "fetch_runs ?w \<and> w_fault ?w CallCommit = None \<and>
    fetchone (matching_tables ?w (table_name (p_demo ''docs''))) = Some ''docs'' \<and>
    addressed ?w (''public.'' @ ''docs'') = Some ''public.docs'' \<and>
    w_rows ?w ''public.docs'' (text_field_name (p_demo ''docs'')) = Some rows_docs \<and>
    rows_docs \<noteq> []"
    by code_simp
  have l: "length rows_docs = 3"
    by code_simp
  note t = missing_configuration_fails_every_row[OF h, where p = "p_demo ''docs''"
      and actual = "''docs''" and relation = "''public.docs''" and fetched = rows_docs]
  note o0 = t[THEN conjunct2, THEN conjunct2, THEN conjunct2, rule_format, OF r]
  from o0 l have o: "outcome (batch_refresh_embeddings ?w (p_demo ''docs'')) = Some (Refreshed 0 3)"
    by simp
  note n0 = t[THEN conjunct2, THEN conjunct2, THEN conjunct1]
  from n0 have n: "filter is_http_post (trace (batch_refresh_embeddings ?w (p_demo ''docs''))) = []"
    unfolding filter_empty_conv by blast
  from r have r': "fetch_runs ?w \<and> w_fault ?w CallCommit = None \<and>
    fetchone (matching_tables ?w (table_name (p_demo ''docs''))) = Some ''docs'' \<and>
    addressed ?w (''public.'' @ ''docs'') = Some ''public.docs'' \<and>
    w_rows ?w ''public.docs'' (text_field_name (p_demo ''docs'')) = Some rows_docs \<and>
    rows_docs \<noteq> []" .
  show ?thesis
    by (rule conjI[OF h], rule conjI[OF r'], rule conjI[OF l], rule conjI[OF o], rule n)
qed

subsection \<open>The shape of the response\<close>

lemma snd_take_embedding:
  "snd (take_embedding body (JArr (first # rest))) =
     (case first of
        JObj kvs2 \<Rightarrow>
          (case map_of kvs2 ''embedding'' of
             Some (JArr (x # xs)) \<Rightarrow> Inr (x # xs)
           | _ \<Rightarrow> Inl (ValueError msg_illegal_format))
      | _ \<Rightarrow> Inl (AttributeError (type_name first) ''get''))"
  by (cases first) (simp_all split: option.splits json.splits list.splits)

lemma snd_read_response:
  "snd (read_response body) =
     (case body_shape body of
        Usable emb \<Rightarrow> Inr emb
      | NoData \<Rightarrow> Inl (ValueError msg_no_data)
      | NoEmbedding \<Rightarrow> Inl (ValueError msg_illegal_format)
      | NotADict ty \<Rightarrow> Inl (AttributeError ty ''get''))"
proof (cases body)
  case (JObj kvs)
  show ?thesis
  proof (cases "map_of kvs ''data''")
    case None
    then show ?thesis using JObj by (simp add: read_response_def body_shape_def)
  next
    case (Some d)
    show ?thesis
    proof (cases d)
      case (JArr ds)
      show ?thesis
      proof (cases ds)
        case Nil
        then show ?thesis using JObj Some JArr by (simp add: read_response_def body_shape_def)
      next
        case (Cons first rest)
        then show ?thesis using JObj Some JArr
          by (simp add: read_response_def body_shape_def snd_take_embedding
              split: json.splits option.splits list.splits)
      qed
    qed (use JObj Some in \<open>simp_all add: read_response_def body_shape_def\<close>)
  qed
qed (simp_all add: read_response_def body_shape_def)

lemma snd_call_vector_service_answers:
  assumes "all_configured cfg"
  shows "snd (call_vector_service cfg (answers body) (Some t)) =
     (case snd (read_response body) of
        Inl e \<Rightarrow> Inl (RuntimeError (pre_gen_failed @ exn_str e))
      | Inr emb \<Rightarrow> Inr emb)"
proof -
  from assms obtain url model user where
    c: "VECTOR_SERVICE_URL cfg = Some url" "VECTOR_MODEL cfg = Some model"
       "VECTOR_USER cfg = Some user" "url \<noteq> []" "model \<noteq> []" "user \<noteq> []"
    by (cases "VECTOR_SERVICE_URL cfg"; cases "VECTOR_MODEL cfg"; cases "VECTOR_USER cfg")
       (auto simp: all_configured_def)
  show ?thesis
    by (cases "read_response body")
       (simp add: call_vector_service_def c answers_def Let_def wrap_generic_def split: sum.splits)
qed

lemma body_shape_Usable:
  "body_shape body = Usable emb \<Longrightarrow>
     \<exists>kvs kvs2 rest x xs.
        body = JObj kvs \<and> map_of kvs ''data'' = Some (JArr (JObj kvs2 # rest)) \<and>
        map_of kvs2 ''embedding'' = Some (JArr (x # xs)) \<and> emb = x # xs"
  by (auto simp: body_shape_def split: json.splits option.splits list.splits)

text \<open>
  Claim C8. With the configuration present and a service that answers with a decoded
  JSON body: when the body is an object whose \<open>data\<close> is a non-empty list whose first
  element is an object with a non-empty list under \<open>embedding\<close>, the client returns
  exactly that list. For every other body it fails, and always with the error the code
  has for a response it cannot use, the \<open>RuntimeError\<close> raised at line 89 with its fixed
  prefix (the code has one class for all these failures). The first conjunct gives the
  text that follows the prefix for each shape of the body.
\<close>

theorem embedding_or_response_failure:
  assumes "all_configured cfg"
  shows "snd (call_vector_service cfg (answers body) (Some t)) =
           (case body_shape body of
              Usable emb \<Rightarrow> Inr emb
            | NoData \<Rightarrow> Inl (RuntimeError (pre_gen_failed @ msg_no_data))
            | NoEmbedding \<Rightarrow> Inl (RuntimeError (pre_gen_failed @ msg_illegal_format))
            | NotADict ty \<Rightarrow> Inl (RuntimeError (pre_gen_failed @ exn_str (AttributeError ty ''get'')))) \<and>
         (body = JObj kvs \<and> map_of kvs ''data'' = Some (JArr (JObj kvs2 # rest)) \<and>
          map_of kvs2 ''embedding'' = Some (JArr (x # xs)) \<longrightarrow>
              snd (call_vector_service cfg (answers body) (Some t)) = Inr (x # xs)) \<and>
         ((\<forall>kvs kvs2 rest x xs.
              \<not> (body = JObj kvs \<and> map_of kvs ''data'' = Some (JArr (JObj kvs2 # rest)) \<and>
                 map_of kvs2 ''embedding'' = Some (JArr (x # xs)))) \<longrightarrow>
              (\<exists>m. snd (call_vector_service cfg (answers body) (Some t)) =
                     Inl (RuntimeError (pre_gen_failed @ m))))"
proof -
  have r: "snd (call_vector_service cfg (answers body) (Some t)) =
           (case body_shape body of
              Usable emb \<Rightarrow> Inr emb
            | NoData \<Rightarrow> Inl (RuntimeError (pre_gen_failed @ msg_no_data))
            | NoEmbedding \<Rightarrow> Inl (RuntimeError (pre_gen_failed @ msg_illegal_format))
            | NotADict ty \<Rightarrow> Inl (RuntimeError (pre_gen_failed @ exn_str (AttributeError ty ''get''))))"
    by (simp add: snd_call_vector_service_answers[OF assms] snd_read_response
        split: body_shape.splits)
  have p: "body = JObj kvs \<and> map_of kvs ''data'' = Some (JArr (JObj kvs2 # rest)) \<and>
          map_of kvs2 ''embedding'' = Some (JArr (x # xs)) \<longrightarrow>
              snd (call_vector_service cfg (answers body) (Some t)) = Inr (x # xs)"
    unfolding r by (simp add: body_shape_def)
  have n: "(\<forall>kvs kvs2 rest x xs.
              \<not> (body = JObj kvs \<and> map_of kvs ''data'' = Some (JArr (JObj kvs2 # rest)) \<and>
                 map_of kvs2 ''embedding'' = Some (JArr (x # xs)))) \<longrightarrow>
              (\<exists>m. snd (call_vector_service cfg (answers body) (Some t)) =
                     Inl (RuntimeError (pre_gen_failed @ m)))"
  proof
    assume a: "\<forall>kvs kvs2 rest x xs.
              \<not> (body = JObj kvs \<and> map_of kvs ''data'' = Some (JArr (JObj kvs2 # rest)) \<and>
                 map_of kvs2 ''embedding'' = Some (JArr (x # xs)))"
    show "\<exists>m. snd (call_vector_service cfg (answers body) (Some t)) =
                     Inl (RuntimeError (pre_gen_failed @ m))"
    proof (cases "body_shape body")
      case (Usable emb)
      from body_shape_Usable[OF this] a show ?thesis by blast
    next
      case NoData
      then show ?thesis unfolding r by simp
    next
      case NoEmbedding
      then show ?thesis unfolding r by simp
    next
      case (NotADict ty)
      then show ?thesis unfolding r by simp
    qed
  qed
  from r p n show ?thesis by (intro conjI)
qed

theorem embedding_or_response_failure_witness:
  "all_configured cfg_ok \<and>
   snd (call_vector_service cfg_ok (answers body_ok) (Some ''hello'')) = Inr [JInt 1, JInt 2, JInt 3] \<and>
   snd (call_vector_service cfg_ok (answers (JObj [(''data'', JArr [])])) (Some ''hello''))
     = Inl (RuntimeError (pre_gen_failed @ msg_no_data)) \<and>
   snd (call_vector_service cfg_ok (answers (JObj [(''data'', JArr [JObj []])])) (Some ''hello''))
     = Inl (RuntimeError (pre_gen_failed @ msg_illegal_format)) \<and>
   snd (call_vector_service cfg_ok (answers body_number_element) (Some ''hello''))
     = Inl (RuntimeError (pre_gen_failed @ exn_str (AttributeError ''int'' ''get''))) \<and>
   snd (call_vector_service cfg_ok (answers (JArr [])) (Some ''hello''))
     = Inl (RuntimeError (pre_gen_failed @ exn_str (AttributeError ''list'' ''get'')))"
proof -
  have h: "all_configured cfg_ok"
    by code_simp
  have s1: "body_shape body_ok = Usable [JInt 1, JInt 2, JInt 3]"
    by code_simp
  have s2: "body_shape (JObj [(''data'', JArr [])]) = NoData"
    by code_simp
  have s3: "body_shape (JObj [(''data'', JArr [JObj []])]) = NoEmbedding"
    by code_simp
  have s4: "body_shape body_number_element = NotADict ''int''"
    by code_simp
  have s5: "body_shape (JArr []) = NotADict ''list''"
    by code_simp
  from embedding_or_response_failure[OF h, of body_ok "''hello''", THEN conjunct1] s1
  have r1: "snd (call_vector_service cfg_ok (answers body_ok) (Some ''hello'')) = Inr [JInt 1, JInt 2, JInt 3]"
    by simp
  from embedding_or_response_failure[OF h, of "JObj [(''data'', JArr [])]" "''hello''", THEN conjunct1] s2
  have r2: "snd (call_vector_service cfg_ok (answers (JObj [(''data'', JArr [])])) (Some ''hello''))
     = Inl (RuntimeError (pre_gen_failed @ msg_no_data))"
    by simp
  from embedding_or_response_failure[OF h, of "JObj [(''data'', JArr [JObj []])]" "''hello''", THEN conjunct1] s3
  have r3: "snd (call_vector_service cfg_ok (answers (JObj [(''data'', JArr [JObj []])])) (Some ''hello''))
     = Inl (RuntimeError (pre_gen_failed @ msg_illegal_format))"
    by simp
  from embedding_or_response_failure[OF h, of body_number_element "''hello''", THEN conjunct1] s4
  have r4: "snd (call_vector_service cfg_ok (answers body_number_element) (Some ''hello''))
     = Inl (RuntimeError (pre_gen_failed @ exn_str (AttributeError ''int'' ''get'')))"
    by simp
  from embedding_or_response_failure[OF h, of "JArr []" "''hello''", THEN conjunct1] s5
  have r5: "snd (call_vector_service cfg_ok (answers (JArr [])) (Some ''hello''))
     = Inl (RuntimeError (pre_gen_failed @ exn_str (AttributeError ''list'' ''get'')))"
    by simp
  from h r1 r2 r3 r4 r5 show ?thesis by (intro conjI)
qed

subsection \<open>A row with a NULL text\<close>

lemma call_vector_service_null:
  "call_vector_service cfg post None =
     (if all_configured cfg then ([], Inl (AttributeError ''NoneType'' ''strip''))
      else ([Log ERROR MsgConfigIncomplete], Inl (ValueError msg_config_missing)))"
  by (auto simp: call_vector_service_def all_configured_def split: option.splits)

lemma try_row_null:
  "row_text r = None \<Longrightarrow>
   try_row w p ft n idx r =
     (if all_configured (w_config w) then ([], Inl (AttributeError ''NoneType'' ''strip''))
      else ([Log ERROR MsgConfigIncomplete], Inl (ValueError msg_config_missing)))"
  by (simp add: try_row_def call_vector_service_null and_then_def)

lemma process_row_null:
  "row_text r = None \<Longrightarrow>
   process_row w p ft n idx r c =
     ((if all_configured (w_config w) then [] else [Log ERROR MsgConfigIncomplete]) @
      [Log ERROR (MsgRowFailed idx (row_id r)
         (if all_configured (w_config w) then exn_str (AttributeError ''NoneType'' ''strip'')
          else msg_config_missing))],
      (fst c, Suc (snd c)))"
  by (simp add: process_row_def try_row_null)

text \<open>
Claim C9. A row whose text is NULL makes the embedding call raise: with the
  configuration present, the \<open>AttributeError\<close> of \<open>None.strip()\<close> at line 54, before the
  request is built (and the configuration error of line 51 otherwise). The turn of that
  row sends no request and no update, ends with the failure line of the row, adds one to
  the failure counter only, and the loop goes on with the next row.
\<close>

theorem null_text_is_one_failure:
  assumes "row_text r = None"
  shows "(\<exists>e. snd (call_vector_service (w_config w) (w_post w idx) (row_text r)) = Inl e) \<and>
         (all_configured (w_config w) \<longrightarrow>
            call_vector_service (w_config w) (w_post w idx) (row_text r) =
              ([], Inl (AttributeError ''NoneType'' ''strip''))) \<and>
         (\<forall>ev \<in> set (row_events w p ft n idx r). \<not> is_http_post ev \<and> \<not> is_update ev) \<and>
         (\<exists>msg. last (row_events w p ft n idx r) = Log ERROR (MsgRowFailed idx (row_id r) msg)) \<and>
         snd (process_row w p ft n idx r (s, f)) = (s, Suc f) \<and>
         process_rows w p ft n idx (r # rs) (s, f) =
           (row_events w p ft n idx r @ fst (process_rows w p ft n (Suc idx) rs (s, Suc f)),
            snd (process_rows w p ft n (Suc idx) rs (s, Suc f)))"
proof (intro conjI impI)
  show "\<exists>e. snd (call_vector_service (w_config w) (w_post w idx) (row_text r)) = Inl e"
    using assms by (simp add: call_vector_service_null)
next
  assume "all_configured (w_config w)"
  then show "call_vector_service (w_config w) (w_post w idx) (row_text r) =
              ([], Inl (AttributeError ''NoneType'' ''strip''))"
    using assms by (simp add: call_vector_service_null)
next
  show "\<forall>ev \<in> set (row_events w p ft n idx r). \<not> is_http_post ev \<and> \<not> is_update ev"
    by (simp add: row_events_def process_row_null[OF assms])
next
  show "\<exists>msg. last (row_events w p ft n idx r) = Log ERROR (MsgRowFailed idx (row_id r) msg)"
    by (simp add: row_events_def process_row_null[OF assms])
next
  show "snd (process_row w p ft n idx r (s, f)) = (s, Suc f)"
    by (simp add: process_row_null[OF assms])
next
  have "snd (process_row w p ft n idx r (s, f)) = (s, Suc f)"
    by (simp add: process_row_null[OF assms])
  then show "process_rows w p ft n idx (r # rs) (s, f) =
           (row_events w p ft n idx r @ fst (process_rows w p ft n (Suc idx) rs (s, Suc f)),
            snd (process_rows w p ft n (Suc idx) rs (s, Suc f)))"
    by (simp add: Let_def process_row_fst_indep)
qed

theorem null_text_is_one_failure_witness:
  "row_text \<lparr>row_id = 7, row_text = None\<rparr> = None \<and>
   rows_demo ''public.notes'' ''body'' =
     Some [\<lparr>row_id = 7, row_text = None\<rparr>, \<lparr>row_id = 8, row_text = Some ''x''\<rparr>] \<and>
   snd (process_row w_demo (p_demo ''notes'') ''public.notes'' 2 1
          \<lparr>row_id = 7, row_text = None\<rparr> (0, 0)) = (0, Suc 0) \<and>
   filter (\<lambda>ev. is_http_post ev \<or> is_update ev)
     (row_events w_demo (p_demo ''notes'') ''public.notes'' 2 1 \<lparr>row_id = 7, row_text = None\<rparr>) = [] \<and>
   outcome (batch_refresh_embeddings w_demo (p_demo ''notes'')) = Some (Refreshed 1 1)"
proof -
  have h: "row_text \<lparr>row_id = 7, row_text = None\<rparr> = None"
    by simp
  have d: "rows_demo ''public.notes'' ''body'' =
     Some [\<lparr>row_id = 7, row_text = None\<rparr>, \<lparr>row_id = 8, row_text = Some ''x''\<rparr>]"
    by code_simp
  have o: "outcome (batch_refresh_embeddings w_demo (p_demo ''notes'')) = Some (Refreshed 1 1)"
    by code_simp
  note t = null_text_is_one_failure[OF h, where w = w_demo and p = "p_demo ''notes''"
      and ft = "''public.notes''" and n = 2 and idx = 1 and s = 0 and f = 0]
  note c = t[THEN conjunct2, THEN conjunct2, THEN conjunct2, THEN conjunct2, THEN conjunct1]
  note e0 = t[THEN conjunct2, THEN conjunct2, THEN conjunct1]
  from e0 have e: "filter (\<lambda>ev. is_http_post ev \<or> is_update ev)
     (row_events w_demo (p_demo ''notes'') ''public.notes'' 2 1 \<lparr>row_id = 7, row_text = None\<rparr>) = []"
    unfolding filter_empty_conv by blast
  from h d c e o show ?thesis by (intro conjI)
qed

subsection \<open>The health check\<close>

text \<open>
Claim C10. The health check computes its flag from the service URL alone. With the
  URL set and the model and the account unset, it reports the service as configured,
  although the configuration is incomplete for \<open>call_vector_service\<close>, which tests all
  three values and raises the configuration error on every call.
\<close>

theorem health_check_reads_url_only:
  "vector_service_configured (health_check cfg_url_only) \<and>
   \<not> all_configured cfg_url_only \<and>
   call_vector_service cfg_url_only (answers body_ok) (Some ''hello'') =
     ([Log ERROR MsgConfigIncomplete], Inl (ValueError msg_config_missing))"
proof -
  have a: "vector_service_configured (health_check cfg_url_only)"
    by code_simp
  have b: "\<not> all_configured cfg_url_only"
    by code_simp
  have c: "call_vector_service cfg_url_only (answers body_ok) (Some ''hello'') =
     ([Log ERROR MsgConfigIncomplete], Inl (ValueError msg_config_missing))"
    using b by (rule call_vector_service_unconfigured)
  from a b c show ?thesis by (intro conjI)
qed

end
